theory Spec2Isabelle
  imports Complex_Main "HOL-Library.AList"
begin

section \<open>JavaScript values\<close>

text \<open>
  The handlers of the gateway read untyped request bodies and store untyped values in the
  cache, so the model carries a small universe of JavaScript values. Numbers are rationals
  (enough for \<open>Number.isInteger\<close> and the comparisons the code makes); \<open>NaN\<close> and the
  infinities do not occur in the modelled paths. A missing property reads as \<open>JUndefined\<close>.
\<close>

datatype jsval =
    JUndefined
  | JNull
  | JBool bool
  | JNum rat
  | JStr string
  | JArr "jsval list"
  | JObj "(string \<times> jsval) list"

text \<open>Truthiness, as \<open>if (v)\<close>, \<open>!v\<close> and \<open>v || w\<close> test it: objects and arrays are
  always truthy, also when empty.\<close>

fun truthy :: "jsval \<Rightarrow> bool" where
  "truthy JUndefined = False"
| "truthy JNull = False"
| "truthy (JBool b) = b"
| "truthy (JNum r) = (r \<noteq> 0)"
| "truthy (JStr s) = (s \<noteq> [])"
| "truthy (JArr xs) = True"
| "truthy (JObj kvs) = True"

definition js_or :: "jsval \<Rightarrow> jsval \<Rightarrow> jsval" where
  \<comment> \<open>\<open>a || b\<close>\<close>
  "js_or a b = (if truthy a then a else b)"

definition isInteger :: "jsval \<Rightarrow> bool" where
  \<comment> \<open>\<open>Number.isInteger(v)\<close>: false for every value that is not a number\<close>
  "isInteger v = (case v of JNum r \<Rightarrow> rat_of_int \<lfloor>r\<rfloor> = r | _ \<Rightarrow> False)"

text \<open>\<open>String(n)\<close> for an integer, used by the template strings of the handlers.\<close>

definition digit_char :: "nat \<Rightarrow> char" where
  "digit_char d = ''0123456789'' ! d"

fun string_of_nat :: "nat \<Rightarrow> string" where
  "string_of_nat n =
     (if n < 10 then [digit_char n] else string_of_nat (n div 10) @ [digit_char (n mod 10)])"

declare string_of_nat.simps [simp del]

definition string_of_int :: "int \<Rightarrow> string" where
  "string_of_int i = (if i < 0 then CHR ''-'' # string_of_nat (nat (- i)) else string_of_nat (nat i))"

text \<open>
  A JavaScript \<open>Error\<close> as the handlers read it: its \<open>message\<close> and the optional
  \<open>status\<close> property that the clients attach.
\<close>

record js_error =
  err_message :: string
  err_status :: "nat option"

text \<open>
  A \<open>JObj\<close> lists the properties in the order in which they were written; as in an
  object literal, a later binding of a name overrides an earlier one, so a property is
  read from the end. Spreading (\<open>{...a, ...b}\<close>) appends.
\<close>

fun js_prop :: "jsval \<Rightarrow> string \<Rightarrow> jsval" where
  "js_prop (JObj kvs) k = (case map_of (rev kvs) k of None \<Rightarrow> JUndefined | Some v \<Rightarrow> v)"
| "js_prop v k = JUndefined"



text \<open>
  Reading a property of \<open>null\<close> or \<open>undefined\<close> throws a \<open>TypeError\<close>; of any
  other value it gives the property or \<open>undefined\<close>.
\<close>

definition js_member :: "jsval \<Rightarrow> string \<Rightarrow> js_error + jsval" where
  "js_member v k =
     (if v = JNull
      then Inl \<lparr>err_message = ''Cannot read properties of null (reading '' @ [CHR 0x27] @ k @ [CHR 0x27] @ '')'',
                err_status = None\<rparr>
      else if v = JUndefined
      then Inl \<lparr>err_message = ''Cannot read properties of undefined (reading '' @ [CHR 0x27] @ k @ [CHR 0x27] @ '')'',
                err_status = None\<rparr>
      else Inr (js_prop v k))"

section \<open>Pavlok controller: rate limiter\<close>

text \<open>
  \<open>lastActionTime\<close> is the module-level object \<open>{ beep: 0, vibrate: 0, shock: 0 }\<close>;
  times are \<open>Date.now()\<close> readings, integer milliseconds.
\<close>

datatype stimulus = Beep | Vibrate | Shock

record last_action_time =
  beep :: int
  vibrate :: int
  shock :: int

definition initial_lastActionTime :: last_action_time where
  "initial_lastActionTime = \<lparr>beep = 0, vibrate = 0, shock = 0\<rparr>"

fun last_of :: "last_action_time \<Rightarrow> stimulus \<Rightarrow> int" where
  "last_of l Beep = beep l"
| "last_of l Vibrate = vibrate l"
| "last_of l Shock = shock l"

fun set_last :: "last_action_time \<Rightarrow> stimulus \<Rightarrow> int \<Rightarrow> last_action_time" where
  "set_last l Beep t = l\<lparr>beep := t\<rparr>"
| "set_last l Vibrate t = l\<lparr>vibrate := t\<rparr>"
| "set_last l Shock t = l\<lparr>shock := t\<rparr>"

definition RATE_LIMIT_MS :: int where
  "RATE_LIMIT_MS = 5000"

record rate_limit =
  allowed :: bool
  timeRemaining :: "int option"

definition checkRateLimit :: "int \<Rightarrow> last_action_time \<Rightarrow> stimulus \<Rightarrow> rate_limit" where
  \<comment> \<open>the first argument is the reading of \<open>Date.now()\<close>\<close>
  "checkRateLimit now l ty =
     (let timeSinceLastAction = now - last_of l ty in
      if timeSinceLastAction < RATE_LIMIT_MS
      then \<lparr>allowed = False,
            timeRemaining = Some \<lceil>rat_of_int (RATE_LIMIT_MS - timeSinceLastAction) / 1000\<rceil>\<rparr>
      else \<lparr>allowed = True, timeRemaining = None\<rparr>)"

definition updateRateLimit :: "int \<Rightarrow> last_action_time \<Rightarrow> stimulus \<Rightarrow> last_action_time" where
  "updateRateLimit now l ty = set_last l ty now"

section \<open>Pavlok client\<close>

text \<open>
  What an HTTP request to an upstream API does: it answers with data, it answers with an
  error status (\<open>error.response\<close> is set, with its \<open>status\<close> and its \<open>data\<close>), or it
  fails without a response (network error, timeout). Of the \<open>data\<close> of an error
  response the clients read the \<open>message\<close> property only: the payload is \<open>null\<close>,
  \<open>undefined\<close>, or some other value with the message string it has, if any.
\<close>

datatype error_body =
    NullBody
  | UndefinedBody
  | Body "string option"

datatype upstream_reply =
    Replied jsval
  | HttpFailure nat error_body
  | NoResponse string

definition msg_or :: "string option \<Rightarrow> string \<Rightarrow> string" where
  \<comment> \<open>\<open>m || message\<close> for the message \<open>m\<close> of a payload\<close>
  "msg_or m d = (case m of None \<Rightarrow> d | Some s \<Rightarrow> if s = [] then d else s)"

definition body_message :: "error_body \<Rightarrow> string \<Rightarrow> js_error + string" where
  \<comment> \<open>\<open>payload.message || message\<close>: reading a property of \<open>null\<close> or \<open>undefined\<close>
      throws a \<open>TypeError\<close>, which has no \<open>status\<close>\<close>
  "body_message b d =
     (case b of
        NullBody \<Rightarrow> Inl \<lparr>err_message = ''Cannot read properties of null (reading 'message')'',
                         err_status = None\<rparr>
      | UndefinedBody \<Rightarrow> Inl \<lparr>err_message = ''Cannot read properties of undefined (reading 'message')'',
                              err_status = None\<rparr>
      | Body m \<Rightarrow> Inr (msg_or m d))"

definition pavlok_handleError :: "upstream_reply \<Rightarrow> string \<Rightarrow> js_error" where
  \<comment> \<open>\<open>PavlokClient._handleError\<close>, which always throws; the result is the error thrown,
      its own or the \<open>TypeError\<close> of reading the message of a null payload\<close>
  "pavlok_handleError r msg =
     (case r of
        HttpFailure st m \<Rightarrow>
          if st = 401 \<or> st = 403 then \<lparr>err_message = ''Invalid or expired Pavlok token'', err_status = Some 401\<rparr>
          else if st = 404 then \<lparr>err_message = ''Invalid Pavlok API endpoint'', err_status = Some 404\<rparr>
          else if st = 400
            then (case body_message m ''Invalid request parameters'' of
                    Inl e \<Rightarrow> e
                  | Inr text \<Rightarrow> \<lparr>err_message = text, err_status = Some 400\<rparr>)
          else (case body_message m msg of
                  Inl e \<Rightarrow> e
                | Inr text \<Rightarrow> \<lparr>err_message = text, err_status = Some st\<rparr>)
      | _ \<Rightarrow> \<lparr>err_message = msg, err_status = Some 500\<rparr>)"

text \<open>
  The history record that \<open>logStimulus\<close> saves, and the side effects of a handler run,
  which the state lists in the order in which they happen.
\<close>

record stimulus_doc =
  doc_type :: string
  doc_intensity :: jsval
  doc_reason :: jsval
  doc_success :: bool
  doc_error :: jsval

datatype effect =
    RateLimitChecked stimulus
  | Posted string jsval
  | RateLimitUpdated stimulus int
  | SaveAttempted stimulus_doc

definition sendStimulus ::
  "string \<Rightarrow> jsval \<Rightarrow> upstream_reply \<Rightarrow> effect list \<Rightarrow> (js_error + jsval) \<times> effect list" where
  \<comment> \<open>\<open>PavlokClient._sendStimulus(type, intensity)\<close>: the POST goes to \<open>/stimuli/<type>/<intensity>\<close>\<close>
  "sendStimulus ty i reply tr =
     (if \<not> isInteger i \<or> (case i of JNum r \<Rightarrow> r < 1 \<or> r > 4 | _ \<Rightarrow> False)
      then (Inl (pavlok_handleError (NoResponse ''Intensity must be an integer between 1 and 4'')
                   (''Failed to send '' @ ty @ '' stimulus'')), tr)
      else
        (case reply of
           Replied d \<Rightarrow>
             (Inr (JObj [(''success'', JBool True), (''type'', JStr ty), (''intensity'', i), (''response'', d)]),
              tr @ [Posted ty i])
         | _ \<Rightarrow> (Inl (pavlok_handleError reply (''Failed to send '' @ ty @ '' stimulus'')), tr @ [Posted ty i])))"

record validation =
  valid :: bool
  val_error :: jsval

definition validateIntensity :: "jsval \<Rightarrow> validation" where
  "validateIntensity i =
     (if i = JUndefined \<or> i = JNull then \<lparr>valid = False, val_error = JStr ''Intensity is required''\<rparr>
      else if \<not> isInteger i then \<lparr>valid = False, val_error = JStr ''Intensity must be an integer''\<rparr>
      else if (case i of JNum r \<Rightarrow> r < 1 \<or> r > 4 | _ \<Rightarrow> False)
        then \<lparr>valid = False, val_error = JStr ''Intensity must be between 1 and 4''\<rparr>
      else \<lparr>valid = True, val_error = JUndefined\<rparr>)"

definition createPavlokClient :: "string option \<Rightarrow> js_error + unit" where
  \<comment> \<open>the constructor throws when the configured token is missing or empty\<close>
  "createPavlokClient token =
     (case token of
        None \<Rightarrow> Inl \<lparr>err_message = ''Pavlok token is required. Please set PAVLOK_TOKEN in environment variables.'',
                     err_status = None\<rparr>
      | Some t \<Rightarrow>
          if t = [] then Inl \<lparr>err_message = ''Pavlok token is required. Please set PAVLOK_TOKEN in environment variables.'',
                              err_status = None\<rparr>
          else Inr ())"

section \<open>Pavlok controller: handlers\<close>

record request_body =
  intensity :: jsval
  confirm :: jsval
  reason :: jsval

record response =
  res_status :: nat
  res_body :: jsval

text \<open>
  What a handler run reads from outside: the configured device token, the clock at the
  rate-limit check and at the rate-limit update (the update runs after the awaited device
  call), the device API's reply, whether \<open>stimulus.save()\<close> resolves, and the
  timestamp string of the response.
\<close>

record pavlok_env =
  config_token :: "string option"
  now_check :: int
  reply :: upstream_reply
  now_update :: int
  save_ok :: bool
  now_iso :: string

record pavlok_state =
  lastActionTime :: last_action_time
  history :: "stimulus_doc list"
  trace :: "effect list"

fun type_key :: "stimulus \<Rightarrow> string" where
  \<comment> \<open>the key into \<open>lastActionTime\<close> and the \<open>type\<close> of the history record\<close>
  "type_key Beep = ''beep''"
| "type_key Vibrate = ''vibrate''"
| "type_key Shock = ''shock''"

fun type_label :: "stimulus \<Rightarrow> string" where
  \<comment> \<open>the device API's name, also used in the responses and messages\<close>
  "type_label Beep = ''beep''"
| "type_label Vibrate = ''vibration''"
| "type_label Shock = ''shock''"

definition logStimulus ::
  "string \<Rightarrow> jsval \<Rightarrow> jsval \<Rightarrow> bool \<Rightarrow> jsval \<Rightarrow> bool \<Rightarrow> pavlok_state \<Rightarrow> pavlok_state" where
  \<comment> \<open>never throws: a failing save is caught and \<open>null\<close> returned, which no caller reads\<close>
  "logStimulus ty i rsn success err saved st =
     (let doc = \<lparr>doc_type = ty, doc_intensity = i, doc_reason = js_or rsn JNull,
                  doc_success = success, doc_error = err\<rparr>
      in st\<lparr>history := (if saved then history st @ [doc] else history st),
            trace := trace st @ [SaveAttempted doc]\<rparr>)"

definition handleError :: "js_error \<Rightarrow> string \<Rightarrow> response" where
  \<comment> \<open>\<open>status = error.status || 500\<close>\<close>
  "handleError e msg =
     \<lparr>res_status = (case err_status e of None \<Rightarrow> 500 | Some s \<Rightarrow> if s = 0 then 500 else s),
      res_body = JObj [(''success'', JBool False), (''error'', JStr msg), (''message'', JStr (err_message e))]\<rparr>"

definition rate_limited_response :: "stimulus \<Rightarrow> rate_limit \<Rightarrow> response" where
  \<open>rate_limited_response ty rl =
     \<lparr>res_status = 429,
      res_body = JObj [(''success'', JBool False), (''error'', JStr ''Rate limit exceeded''),
        (''message'', JStr (''Please wait '' @
            (case timeRemaining rl of None \<Rightarrow> ''undefined'' | Some n \<Rightarrow> string_of_int n) @
            '' seconds before triggering another '' @ type_label ty)),
        (''timeRemaining'', (case timeRemaining rl of None \<Rightarrow> JUndefined | Some n \<Rightarrow> JNum (rat_of_int n)))]\<rparr>\<close>

definition confirmation_required :: response where
  \<open>confirmation_required =
     \<lparr>res_status = 400,
      res_body = JObj [(''success'', JBool False), (''error'', JStr ''Safety confirmation required''),
        (''message'', JStr ''Shock requires explicit confirmation. Set "confirm: true" in request body.'')]\<rparr>\<close>

text \<open>
  \<open>triggerBeep\<close>, \<open>triggerVibration\<close> and \<open>triggerShock\<close> are the same code up to the
  stimulus name and the confirmation guard that only \<open>triggerShock\<close> has, so one function
  \<open>trigger\<close> indexed by the stimulus stands for the three. \<open>trigger_try\<close> is the body of
  the \<open>try\<close> block: \<open>Inl\<close> is an exception on its way to the \<open>catch\<close>, \<open>Inr\<close> a
  response sent.
\<close>

definition trigger_try ::
  "stimulus \<Rightarrow> pavlok_env \<Rightarrow> request_body \<Rightarrow> pavlok_state \<Rightarrow> (js_error + response) \<times> pavlok_state" where
  "trigger_try ty env body st =
     (if ty = Shock \<and> confirm body \<noteq> JBool True then (Inr confirmation_required, st)
      else
        (case createPavlokClient (config_token env) of
           Inl e \<Rightarrow> (Inl e, st)
         | Inr _ \<Rightarrow>
             (let validation = validateIntensity (intensity body) in
              if \<not> valid validation
              then (Inr \<lparr>res_status = 400,
                         res_body = JObj [(''success'', JBool False), (''error'', val_error validation)]\<rparr>, st)
              else
                (let rateLimit = checkRateLimit (now_check env) (lastActionTime st) ty;
                     st1 = st\<lparr>trace := trace st @ [RateLimitChecked ty]\<rparr>
                 in if \<not> allowed rateLimit then (Inr (rate_limited_response ty rateLimit), st1)
                    else
                      (case sendStimulus (type_label ty) (intensity body) (reply env) (trace st1) of
                         (Inl e, tr) \<Rightarrow> (Inl e, st1\<lparr>trace := tr\<rparr>)
                       | (Inr result, tr) \<Rightarrow>
                           (let st2 = st1\<lparr>lastActionTime := updateRateLimit (now_update env) (lastActionTime st1) ty,
                                          trace := tr @ [RateLimitUpdated ty (now_update env)]\<rparr>;
                                st3 = logStimulus (type_key ty) (intensity body) (reason body) True JNull
                                        (save_ok env) st2
                            in (Inr \<lparr>res_status = 200,
                                     res_body = JObj [(''success'', JBool True), (''type'', JStr (type_label ty)),
                                       (''intensity'', intensity body), (''reason'', js_or (reason body) JNull),
                                       (''timestamp'', JStr (now_iso env))]\<rparr>, st3)))))))"

definition trigger ::
  "stimulus \<Rightarrow> pavlok_env \<Rightarrow> request_body \<Rightarrow> pavlok_state \<Rightarrow> response \<times> pavlok_state" where
  "trigger ty env body st =
     (case trigger_try ty env body st of
        (Inr resp, st') \<Rightarrow> (resp, st')
      | (Inl e, st') \<Rightarrow>
          (handleError e (''Failed to trigger '' @ type_label ty),
           logStimulus (type_key ty) (intensity body) (reason body) False (JStr (err_message e))
             (save_ok env) st'))"

definition triggerBeep :: "pavlok_env \<Rightarrow> request_body \<Rightarrow> pavlok_state \<Rightarrow> response \<times> pavlok_state" where
  "triggerBeep = trigger Beep"

definition triggerVibration :: "pavlok_env \<Rightarrow> request_body \<Rightarrow> pavlok_state \<Rightarrow> response \<times> pavlok_state" where
  "triggerVibration = trigger Vibrate"

definition triggerShock :: "pavlok_env \<Rightarrow> request_body \<Rightarrow> pavlok_state \<Rightarrow> response \<times> pavlok_state" where
  "triggerShock = trigger Shock"

text \<open>
  The effects a handler run added to the trace, and whether the device call was among
  them.
\<close>

definition new_effects :: "pavlok_state \<Rightarrow> pavlok_state \<Rightarrow> effect list" where
  "new_effects st st' = drop (length (trace st)) (trace st')"

definition upstream_call_issued :: "stimulus \<Rightarrow> pavlok_env \<Rightarrow> request_body \<Rightarrow> pavlok_state \<Rightarrow> bool" where
  "upstream_call_issued ty env body st =
     (Posted (type_label ty) (intensity body) \<in> set (new_effects st (snd (trigger ty env body st))))"

definition upstream_ok :: "upstream_reply \<Rightarrow> bool" where
  "upstream_ok r = (case r of Replied d \<Rightarrow> True | _ \<Rightarrow> False)"

text \<open>
  The guards a request passes before the device call: the confirmation (shock only), the
  client construction, the intensity validation and the rate limiter.
\<close>

definition issue_pre :: "stimulus \<Rightarrow> pavlok_env \<Rightarrow> request_body \<Rightarrow> pavlok_state \<Rightarrow> bool" where
  "issue_pre ty env body st =
     ((if ty = Shock then confirm body = JBool True else True)
      \<and> createPavlokClient (config_token env) = Inr ()
      \<and> valid (validateIntensity (intensity body))
      \<and> allowed (checkRateLimit (now_check env) (lastActionTime st) ty))"

text \<open>Example inputs for the handlers.\<close>

definition env0 :: pavlok_env where
  "env0 = \<lparr>config_token = Some ''token'', now_check = 10000, reply = Replied JNull,
           now_update = 10050, save_ok = False, now_iso = ''2025-01-06T10:00:00.000Z''\<rparr>"

definition env_down :: pavlok_env where
  \<comment> \<open>the device API answers 503\<close>
  "env_down = env0\<lparr>reply := HttpFailure 503 (Body None), save_ok := True\<rparr>"

definition body0 :: request_body where
  "body0 = \<lparr>intensity = JNum 2, confirm = JBool True, reason = JUndefined\<rparr>"

definition body_unconfirmed :: request_body where
  \<comment> \<open>\<open>{ intensity: 2 }\<close>: no \<open>confirm\<close> property\<close>
  "body_unconfirmed = \<lparr>intensity = JNum 2, confirm = JUndefined, reason = JUndefined\<rparr>"

definition st0 :: pavlok_state where
  "st0 = \<lparr>lastActionTime = initial_lastActionTime, history = [], trace = []\<rparr>"

definition st_cooling :: pavlok_state where
  \<comment> \<open>a shock was triggered one second before \<open>now_check env0\<close>\<close>
  "st_cooling = \<lparr>lastActionTime = \<lparr>beep = 0, vibrate = 0, shock = 9000\<rparr>, history = [], trace = []\<rparr>"

section \<open>Strava client\<close>

text \<open>
  The token record \<open>{access_token, refresh_token, expires_at}\<close> as the token store
  keeps it in \<open>.strava-tokens.json\<close>; \<open>expires_at\<close> is in Unix seconds.
\<close>

record token_record =
  access_token :: string
  refresh_token :: string
  expires_at :: int

text \<open>
  The fields of a \<open>StravaClient\<close> instance. \<open>client_auth\<close> is the
  \<open>Authorization\<close> header of the Axios instance that \<open>_initializeClient\<close> builds.
  The constructor of an instance made from an explicit token (\<open>manualToken\<close>)
  returns before it sets \<open>refreshToken\<close> and \<open>expiresAt\<close>: \<open>expiresAt\<close> is
  \<open>None\<close> when the property is \<open>undefined\<close>, and the \<open>refreshToken\<close> of such an
  instance is never read.
\<close>

record strava_client =
  accessToken :: string
  refreshToken :: string
  expiresAt :: "int option"
  manualToken :: bool
  client_auth :: string

definition initializeClient :: "strava_client \<Rightarrow> strava_client" where
  "initializeClient c = c\<lparr>client_auth := ''Bearer '' @ accessToken c\<rparr>"

definition client_from_file :: "token_record option \<Rightarrow> js_error + strava_client" where
  \<comment> \<open>the constructor's second half; the argument is what \<open>loadTokens()\<close> returns\<close>
  "client_from_file file =
     (case file of
        None \<Rightarrow> Inl \<lparr>err_message = ''Strava tokens not found. Run: node services/strava/oauth-setup.js'',
                     err_status = None\<rparr>
      | Some t \<Rightarrow> Inr (initializeClient \<lparr>accessToken = access_token t, refreshToken = refresh_token t,
                                        expiresAt = Some (expires_at t), manualToken = False, client_auth = []\<rparr>))"

definition new_StravaClient :: "string option \<Rightarrow> token_record option \<Rightarrow> js_error + strava_client" where
  \<comment> \<open>the constructor: an explicit, non-empty token makes a manual client\<close>
  "new_StravaClient tok file =
     (case tok of
        None \<Rightarrow> client_from_file file
      | Some t \<Rightarrow>
          if t \<noteq> []
          then Inr (initializeClient \<lparr>accessToken = t, refreshToken = [], expiresAt = None,
                                      manualToken = True, client_auth = []\<rparr>)
          else client_from_file file)"

definition TOKEN_REFRESH_BUFFER :: int where
  "TOKEN_REFRESH_BUFFER = 300"

text \<open>
  The state around one client: the instance, the token file, the refresh requests posted
  to the token endpoint (each with the refresh token it carried) and the API requests made
  (path and \<open>Authorization\<close> header; the query parameters are left out). A path is
  a literal, or the template \<open>`<prefix>${id}<suffix>`\<close> with the value put in.
\<close>

datatype api_path =
    Path string
  | PathWithId string jsval string

record strava_state =
  client :: strava_client
  token_file :: "token_record option"
  refresh_requests :: "string list"
  api_requests :: "(api_path \<times> string) list"

datatype token_reply =
    TokenOk token_record
  | TokenFailed string

definition reauthorize_error :: js_error where
  "reauthorize_error =
     \<lparr>err_message = ''Token refresh failed. You may need to re-authorize: node services/strava/oauth-setup.js'',
      err_status = None\<rparr>"

text \<open>
  \<open>_refreshToken\<close> in two halves, split at its only suspension point
  \<open>await axios.post(...)\<close>: \<open>refresh_send\<close> runs up to the request,
  \<open>refresh_receive\<close> is the continuation once the request has settled. The boolean is
  whether \<open>saveTokens\<close> can write the file (it rethrows when it cannot).
\<close>

definition refresh_send :: "strava_state \<Rightarrow> strava_state" where
  "refresh_send st = st\<lparr>refresh_requests := refresh_requests st @ [refreshToken (client st)]\<rparr>"

definition refresh_receive :: "token_reply \<Rightarrow> bool \<Rightarrow> strava_state \<Rightarrow> (js_error + unit) \<times> strava_state" where
  "refresh_receive r writable st =
     (case r of
        TokenFailed m \<Rightarrow> (Inl reauthorize_error, st)
      | TokenOk tokenData \<Rightarrow>
          if \<not> writable then (Inl reauthorize_error, st)
          else (Inr (),
                st\<lparr>token_file := Some tokenData,
                   client := initializeClient ((client st)
                      \<lparr>accessToken := access_token tokenData,
                       refreshToken := refresh_token tokenData,
                       expiresAt := Some (expires_at tokenData)\<rparr>)\<rparr>))"

definition refreshToken_m :: "token_reply \<Rightarrow> bool \<Rightarrow> strava_state \<Rightarrow> (js_error + unit) \<times> strava_state" where
  \<comment> \<open>\<open>StravaClient._refreshToken\<close>, run without interruption\<close>
  "refreshToken_m r writable st = refresh_receive r writable (refresh_send st)"

definition needs_refresh :: "int \<Rightarrow> strava_client \<Rightarrow> bool" where
  \<comment> \<open>the test of \<open>_ensureValidToken\<close>; the first argument is \<open>Date.now()\<close> in milliseconds.
      With \<open>expiresAt\<close> undefined the difference is \<open>NaN\<close> and the comparison false\<close>
  "needs_refresh now_ms c =
     (case expiresAt c of
        None \<Rightarrow> False
      | Some expiry \<Rightarrow>
          (let now = now_ms div 1000; timeUntilExpiry = expiry - now
           in timeUntilExpiry < TOKEN_REFRESH_BUFFER))"

definition ensureValidToken ::
  "int \<Rightarrow> token_reply \<Rightarrow> bool \<Rightarrow> strava_state \<Rightarrow> (js_error + unit) \<times> strava_state" where
  \<comment> \<open>\<open>StravaClient._ensureValidToken\<close>\<close>
  "ensureValidToken now_ms r writable st =
     (if manualToken (client st) then (Inr (), st)
      else if needs_refresh now_ms (client st) then refreshToken_m r writable st
      else (Inr (), st))"

definition strava_handleError :: "upstream_reply \<Rightarrow> string \<Rightarrow> js_error" where
  \<comment> \<open>\<open>StravaClient._handleError\<close>, which always throws; the result is the error thrown,
      its own or the \<open>TypeError\<close> of reading the message of a null payload\<close>
  "strava_handleError r msg =
     (case r of
        HttpFailure st m \<Rightarrow>
          if st = 429 then \<lparr>err_message = ''Strava API rate limit exceeded'', err_status = Some 429\<rparr>
          else if st = 401 then \<lparr>err_message = ''Invalid or expired Strava access token'', err_status = Some 401\<rparr>
          else if st = 404 then \<lparr>err_message = ''Resource not found'', err_status = Some 404\<rparr>
          else (case body_message m msg of
                  Inl e \<Rightarrow> e
                | Inr text \<Rightarrow> \<lparr>err_message = text, err_status = Some st\<rparr>)
      | _ \<Rightarrow> \<lparr>err_message = msg, err_status = Some 500\<rparr>)"

text \<open>
  The four API methods. Each awaits \<open>_ensureValidToken\<close> before its \<open>try\<close>, so an
  error of the token check goes to the caller as it is; inside the \<open>try\<close> it sends
  the request with the client that the check left, and every error caught there is
  rethrown by \<open>_handleError\<close>. \<open>client_get\<close> is that request: the \<open>get\<close> on the
  Axios instance, with what it resolves to or what \<open>_handleError\<close> throws.
\<close>

definition client_get ::
  "api_path \<Rightarrow> string \<Rightarrow> upstream_reply \<Rightarrow> strava_state \<Rightarrow> (js_error + jsval) \<times> strava_state" where
  "client_get path msg api st =
     (let st' = st\<lparr>api_requests := api_requests st @ [(path, client_auth (client st))]\<rparr>
      in case api of
           Replied d \<Rightarrow> (Inr d, st')
         | _ \<Rightarrow> (Inl (strava_handleError api msg), st'))"

definition getAthlete ::
  "int \<Rightarrow> token_reply \<Rightarrow> bool \<Rightarrow> upstream_reply \<Rightarrow> strava_state \<Rightarrow> (js_error + jsval) \<times> strava_state" where
  "getAthlete now_ms r writable api st =
     (case ensureValidToken now_ms r writable st of
        (Inl e, st') \<Rightarrow> (Inl e, st')
      | (Inr _, st') \<Rightarrow> client_get (Path ''/athlete'') ''Failed to fetch athlete profile'' api st')"

definition getActivities ::
  "int \<Rightarrow> token_reply \<Rightarrow> bool \<Rightarrow> upstream_reply \<Rightarrow> jsval \<Rightarrow> strava_state \<Rightarrow> (js_error + jsval) \<times> strava_state" where
  \<comment> \<open>\<open>params\<close> defaults to \<open>{}\<close> when undefined; reading \<open>params.page\<close> of \<open>null\<close>
      throws inside the \<open>try\<close>, before the request\<close>
  "getActivities now_ms r writable api params st =
     (case ensureValidToken now_ms r writable st of
        (Inl e, st') \<Rightarrow> (Inl e, st')
      | (Inr _, st') \<Rightarrow>
          if params = JNull
          then (Inl (strava_handleError (NoResponse ''Cannot read properties of null (reading 'page')'')
                       ''Failed to fetch activities''), st')
          else client_get (Path ''/athlete/activities'') ''Failed to fetch activities'' api st')"

definition getActivity ::
  "int \<Rightarrow> token_reply \<Rightarrow> bool \<Rightarrow> upstream_reply \<Rightarrow> string \<Rightarrow> strava_state \<Rightarrow> (js_error + jsval) \<times> strava_state" where
  \<comment> \<open>the controller passes the route parameter, a string\<close>
  "getActivity now_ms r writable api activityId st =
     (case ensureValidToken now_ms r writable st of
        (Inl e, st') \<Rightarrow> (Inl e, st')
      | (Inr _, st') \<Rightarrow>
          client_get (Path (''/activities/'' @ activityId)) (''Failed to fetch activity '' @ activityId) api st')"

definition getAthleteStats ::
  "int \<Rightarrow> token_reply \<Rightarrow> bool \<Rightarrow> int \<Rightarrow> token_reply \<Rightarrow> bool \<Rightarrow> upstream_reply \<Rightarrow> upstream_reply \<Rightarrow>
   string \<Rightarrow> strava_state \<Rightarrow> (js_error + jsval) \<times> strava_state" where
  \<comment> \<open>for \<open>'current'\<close> the method calls \<open>getAthlete\<close> inside its \<open>try\<close>: the second clock
      reading, token reply and API reply are those of that call, and an error of that call
      has no \<open>response\<close>, so \<open>_handleError\<close> rethrows it as the generic error\<close>
  "getAthleteStats now_ms r writable now_ms2 r2 writable2 api_athlete api_stats athleteId st =
     (case ensureValidToken now_ms r writable st of
        (Inl e, st') \<Rightarrow> (Inl e, st')
      | (Inr _, st') \<Rightarrow>
          (case (if athleteId = ''current''
                 then (case getAthlete now_ms2 r2 writable2 api_athlete st' of
                         (Inl e, st'') \<Rightarrow> (Inl e, st'')
                       | (Inr athlete, st'') \<Rightarrow>
                           (case js_member athlete ''id'' of
                              Inl e \<Rightarrow> (Inl e, st'')
                            | Inr athlete_id \<Rightarrow> (Inr athlete_id, st'')))
                 else (Inr (JStr athleteId), st')) of
             (Inl e, st'') \<Rightarrow>
               (Inl (strava_handleError (NoResponse (err_message e)) ''Failed to fetch athlete stats''), st'')
           | (Inr athlete_id, st'') \<Rightarrow>
               client_get (PathWithId ''/athletes/'' athlete_id ''/stats'') ''Failed to fetch athlete stats''
                 api_stats st''))"

text \<open>Example inputs for the client.\<close>

definition tokens0 :: token_record where
  "tokens0 = \<lparr>access_token = ''a0'', refresh_token = ''r0'', expires_at = 1300\<rparr>"

definition tokens1 :: token_record where
  "tokens1 = \<lparr>access_token = ''a1'', refresh_token = ''r1'', expires_at = 22900\<rparr>"

definition tokens2 :: token_record where
  "tokens2 = \<lparr>access_token = ''a2'', refresh_token = ''r2'', expires_at = 22901\<rparr>"

definition strava0 :: strava_state where
  \<comment> \<open>a client made from the token file holding \<open>tokens0\<close>\<close>
  "strava0 =
     \<lparr>client = \<lparr>accessToken = ''a0'', refreshToken = ''r0'', expiresAt = Some 1300, manualToken = False,
                 client_auth = ''Bearer a0''\<rparr>,
      token_file = Some tokens0, refresh_requests = [], api_requests = []\<rparr>"

definition strava_manual :: strava_state where
  \<comment> \<open>a client made with \<open>new StravaClient('tok')\<close>\<close>
  "strava_manual =
     \<lparr>client = \<lparr>accessToken = ''tok'', refreshToken = [], expiresAt = None, manualToken = True,
                 client_auth = ''Bearer tok''\<rparr>,
      token_file = Some tokens0, refresh_requests = [], api_requests = []\<rparr>"

section \<open>Strava client: calls that overlap\<close>

text \<open>
  Node runs one callback at a time and a call gives up control only at an \<open>await\<close>, so
  the runs of several \<open>_ensureValidToken\<close> calls on one client are the interleavings of
  two kinds of atomic step: \<open>Call i t\<close>, caller \<open>i\<close> enters at clock reading \<open>t\<close> and
  runs up to the \<open>await\<close> of its refresh request (or finishes, when no refresh is due);
  \<open>Settle i r w\<close>, the refresh request of caller \<open>i\<close> settles with reply \<open>r\<close> and the
  caller runs to its end. \<open>in_flight\<close> lists the pending refresh requests with the
  refresh token each one carries; \<open>finished\<close> lists the callers that are through, with
  the error thrown to them or the \<open>Authorization\<close> header of the client they go on with.
\<close>

record conc_state =
  strava :: strava_state
  in_flight :: "(nat \<times> string) list"
  finished :: "(nat \<times> (js_error + string)) list"

datatype conc_event =
    Call nat int
  | Settle nat token_reply bool

fun conc_step :: "conc_event \<Rightarrow> conc_state \<Rightarrow> conc_state" where
  "conc_step (Call i now_ms) s =
     (if manualToken (client (strava s)) \<or> \<not> needs_refresh now_ms (client (strava s))
      then s\<lparr>finished := finished s @ [(i, Inr (client_auth (client (strava s))))]\<rparr>
      else s\<lparr>strava := refresh_send (strava s),
             in_flight := in_flight s @ [(i, refreshToken (client (strava s)))]\<rparr>)"
| "conc_step (Settle i r w) s =
     (case map_of (in_flight s) i of
        None \<Rightarrow> s
      | Some tok \<Rightarrow>
          (case refresh_receive r w (strava s) of
             (Inl e, st') \<Rightarrow>
               s\<lparr>strava := st', in_flight := filter (\<lambda>p. fst p \<noteq> i) (in_flight s),
                  finished := finished s @ [(i, Inl e)]\<rparr>
           | (Inr _, st') \<Rightarrow>
               s\<lparr>strava := st', in_flight := filter (\<lambda>p. fst p \<noteq> i) (in_flight s),
                  finished := finished s @ [(i, Inr (client_auth (client st')))]\<rparr>))"

fun conc_run :: "conc_event list \<Rightarrow> conc_state \<Rightarrow> conc_state" where
  "conc_run [] s = s"
| "conc_run (e # es) s = conc_run es (conc_step e s)"

text \<open>
  Two schedules: \<open>arrivals\<close>, where callers \<open>i, i+1, \<dots>\<close> all enter before any refresh
  settles, and \<open>seq_calls\<close>, where each call runs to its end before the next one enters.
\<close>

fun arrivals :: "int list \<Rightarrow> nat \<Rightarrow> conc_event list" where
  "arrivals [] i = []"
| "arrivals (t # ts) i = Call i t # arrivals ts (Suc i)"

fun seq_calls :: "(int \<times> token_reply \<times> bool) list \<Rightarrow> nat \<Rightarrow> conc_event list" where
  "seq_calls [] i = []"
| "seq_calls ((t, r, w) # cs) i = Call i t # Settle i r w # seq_calls cs (Suc i)"

definition conc0 :: conc_state where
  "conc0 = \<lparr>strava = strava0, in_flight = [], finished = []\<rparr>"

section \<open>Shared cache\<close>

text \<open>
  Modelled from the spec: the TTL cache store. The shared \<open>cache\<close> object is an instance
  of the \<open>node-cache\<close> library (\<open>stdTTL: 300, checkperiod: 60, useClones: false\<close>), whose
  code is not part of the repository; its \<open>get\<close>, \<open>set\<close>, \<open>del\<close> and \<open>keys\<close> follow
  the contract of the specification: an entry is a value with an expiry time, \<open>set\<close>
  with a TTL in seconds makes the entry expire that long after the write, and \<open>get\<close>
  never returns a value once \<open>now >= expiresAt\<close>. The clock is \<open>Date.now()\<close>, in
  milliseconds.
\<close>

record cache_entry =
  ce_value :: jsval
  ce_expiresAt :: int

type_synonym cache = "(string \<times> cache_entry) list"

definition cache_get :: "int \<Rightarrow> cache \<Rightarrow> string \<Rightarrow> jsval option" where
  \<comment> \<open>Modelled from the spec: \<open>get(key) -> value or absent\<close>\<close>
  "cache_get now c k =
     (case map_of c k of
        None \<Rightarrow> None
      | Some e \<Rightarrow> if now < ce_expiresAt e then Some (ce_value e) else None)"

definition cache_set :: "int \<Rightarrow> cache \<Rightarrow> string \<Rightarrow> jsval \<Rightarrow> int \<Rightarrow> cache" where
  \<comment> \<open>Modelled from the spec: \<open>set(key, value, ttlSeconds)\<close>, written at time \<open>now\<close>\<close>
  "cache_set now c k v ttl = AList.update k \<lparr>ce_value = v, ce_expiresAt = now + ttl * 1000\<rparr> c"

definition cache_del :: "cache \<Rightarrow> string \<Rightarrow> nat \<times> cache" where
  \<comment> \<open>Modelled from the spec: \<open>delete(key) -> count removed\<close>\<close>
  "cache_del c k = ((if map_of c k = None then 0 else 1), AList.delete k c)"

fun cache_del_list :: "cache \<Rightarrow> string list \<Rightarrow> nat \<times> cache" where
  \<comment> \<open>Modelled from the spec: \<open>delete(key-list) -> count removed\<close>\<close>
  "cache_del_list c [] = (0, c)"
| "cache_del_list c (k # ks) =
     (case cache_del c k of (n, c') \<Rightarrow> (case cache_del_list c' ks of (m, c'') \<Rightarrow> (n + m, c'')))"

definition cache_keys :: "cache \<Rightarrow> string list" where
  \<comment> \<open>Modelled from the spec: \<open>keys() -> list\<close>\<close>
  "cache_keys c = map fst c"

definition js_cache_get :: "int \<Rightarrow> cache \<Rightarrow> string \<Rightarrow> jsval" where
  \<comment> \<open>what \<open>cache.get(key)\<close> evaluates to in the handlers: \<open>undefined\<close> for an absent key\<close>
  "js_cache_get now c k = (case cache_get now c k of None \<Rightarrow> JUndefined | Some v \<Rightarrow> v)"

section \<open>Strava controller: cached fetch\<close>

record cached_result =
  cr_data :: jsval
  cr_fromCache :: bool

text \<open>
  A run of \<open>getCachedOrFetch\<close>: what it returns or throws, the cache afterwards, and how
  many times it called \<open>fetchFn\<close>. \<open>fetched\<close> is what \<open>fetchFn()\<close> resolves or
  rejects with, should it be called; \<open>now_get\<close> and \<open>now_set\<close> are the clock at the
  read and, after the awaited fetch, at the write.
\<close>

record cof_run =
  cof_result :: "js_error + cached_result"
  cof_cache :: cache
  cof_fetches :: nat

definition getCachedOrFetch ::
  "int \<Rightarrow> int \<Rightarrow> cache \<Rightarrow> string \<Rightarrow> int \<Rightarrow> js_error + jsval \<Rightarrow> cof_run" where
  "getCachedOrFetch now_get now_set c cacheKey duration fetched =
     (let cached = js_cache_get now_get c cacheKey in
      if truthy cached
      then \<lparr>cof_result = Inr \<lparr>cr_data = cached, cr_fromCache = True\<rparr>, cof_cache = c, cof_fetches = 0\<rparr>
      else
        (case fetched of
           Inl e \<Rightarrow> \<lparr>cof_result = Inl e, cof_cache = c, cof_fetches = 1\<rparr>
         | Inr data \<Rightarrow>
             \<lparr>cof_result = Inr \<lparr>cr_data = data, cr_fromCache = False\<rparr>,
              cof_cache = cache_set now_set c cacheKey data duration, cof_fetches = 1\<rparr>))"

definition served :: "int \<Rightarrow> cache \<Rightarrow> string \<Rightarrow> bool" where
  \<comment> \<open>the read returns a value that \<open>if (cached)\<close> accepts\<close>
  "served now c k = (case cache_get now c k of None \<Rightarrow> False | Some v \<Rightarrow> truthy v)"

section \<open>Unified controller: aggregation\<close>























section \<open>Calendar service\<close>

text \<open>
  The built-in \<open>Date\<close> is a parameter of the model: \<open>new Date(v)\<close> is
  \<open>mkDate v\<close>, \<open>None\<close> for an invalid date, otherwise its \<open>getTime()\<close> and its
  local \<open>getFullYear()\<close>, \<open>getMonth()\<close> (from 0) and \<open>getDate()\<close>.
\<close>

record js_date =
  d_time :: int
  d_year :: int
  d_month :: nat
  d_day :: nat

definition padStart2 :: "string \<Rightarrow> string" where
  \<comment> \<open>\<open>s.padStart(2, '0')\<close>\<close>
  "padStart2 s = replicate (2 - length s) CHR ''0'' @ s"

definition formatDate :: "js_date option \<Rightarrow> string" where
  \<comment> \<open>every getter of an invalid date is \<open>NaN\<close>\<close>
  "formatDate date =
     (case date of
        None \<Rightarrow> ''NaN-NaN-NaN''
      | Some d \<Rightarrow>
          string_of_int (d_year d) @ ''-'' @ padStart2 (string_of_nat (d_month d + 1))
            @ ''-'' @ padStart2 (string_of_nat (d_day d)))"

definition getDateKey :: "(jsval \<Rightarrow> js_date option) \<Rightarrow> jsval \<Rightarrow> string" where
  "getDateKey mkDate dateString = formatDate (mkDate dateString)"

definition CACHE_PREFIX :: string where
  "CACHE_PREFIX = ''calendar:events:''"

definition calendar_cache_duration :: "int option \<Rightarrow> int" where
  \<comment> \<open>\<open>parseInt(process.env.CALENDAR_CACHE_DURATION) || 15 * 60\<close>; \<open>None\<close> is \<open>NaN\<close>\<close>
  "calendar_cache_duration env = (case env of None \<Rightarrow> 15 * 60 | Some n \<Rightarrow> if n = 0 then 15 * 60 else n)"

definition getCacheKey :: "string \<Rightarrow> string" where
  "getCacheKey dateKey = CACHE_PREFIX @ dateKey"

definition getCachedEvents :: "int \<Rightarrow> cache \<Rightarrow> string \<Rightarrow> jsval" where
  "getCachedEvents now c dateKey =
     (let cachedData = js_cache_get now c (getCacheKey dateKey)
      in if truthy cachedData then cachedData else JNull)"

definition setCachedEvents :: "int option \<Rightarrow> int \<Rightarrow> cache \<Rightarrow> string \<Rightarrow> jsval \<Rightarrow> cache" where
  "setCachedEvents env now c dateKey events =
     cache_set now c (getCacheKey dateKey) events (calendar_cache_duration env)"

definition clearDateCache :: "cache \<Rightarrow> string \<Rightarrow> nat \<times> cache" where
  "clearDateCache c dateKey = cache_del c (getCacheKey dateKey)"

definition startsWith :: "string \<Rightarrow> string \<Rightarrow> bool" where
  "startsWith s p = (take (length p) s = p)"

definition clearAllCalendarCache :: "cache \<Rightarrow> cache" where
  "clearAllCalendarCache c =
     (let keys = cache_keys c;
          calendarKeys = filter (\<lambda>key. startsWith key CACHE_PREFIX) keys
      in if length calendarKeys > 0 then snd (cache_del_list c calendarKeys) else c)"

text \<open>
  \<open>getEventsWithCache\<close>: the cached list when there is one, otherwise the list fetched
  from Google Calendar, which is then cached. The result carries the number of fetches.
\<close>

definition getEventsWithCache ::
  "int option \<Rightarrow> int \<Rightarrow> int \<Rightarrow> cache \<Rightarrow> string \<Rightarrow> js_error + jsval \<Rightarrow> (js_error + jsval) \<times> cache \<times> nat" where
  "getEventsWithCache env now_get now_set c dateKey fetched =
     (let cachedEvents = getCachedEvents now_get c dateKey in
      if truthy cachedEvents then (Inr cachedEvents, c, 0)
      else
        (case fetched of
           Inl e \<Rightarrow> (Inl e, c, 1)
         | Inr events \<Rightarrow> (Inr events, setCachedEvents env now_set c dateKey events, 1)))"

text \<open>
  An error thrown inside a calendar route: its \<open>message\<close> and its \<open>code\<close> (the Google
  client sets the HTTP status there).
\<close>

record route_error =
  re_message :: string
  re_code :: "nat option"

text \<open>
  Strings are sequences of bytes, a character outside ASCII being its UTF-8 encoding.
  \<open>String.prototype.trim\<close> strips the white space and line terminators of ECMAScript:
  tab, line feed, vertical tab, form feed, carriage return, space, U+00A0, U+1680,
  U+2000 to U+200A, U+2028, U+2029, U+202F, U+205F, U+3000 and U+FEFF. \<open>all_space s\<close>
  says that \<open>s\<close> consists of such characters only, that is \<open>s.trim() === ''\<close>.
\<close>

definition is_space :: "char \<Rightarrow> bool" where
  "is_space ch = (ch \<in> set [CHR '' '', CHR 0x09, CHR 0x0A, CHR 0x0B, CHR 0x0C, CHR 0x0D])"

definition is_space3 :: "char \<Rightarrow> char \<Rightarrow> char \<Rightarrow> bool" where
  \<comment> \<open>the white space characters that take three bytes\<close>
  "is_space3 a b c =
     ((a = CHR 0xE1 \<and> b = CHR 0x9A \<and> c = CHR 0x80)
      \<or> (a = CHR 0xE2 \<and> b = CHR 0x80
          \<and> c \<in> set [CHR 0x80, CHR 0x81, CHR 0x82, CHR 0x83, CHR 0x84, CHR 0x85, CHR 0x86, CHR 0x87,
                      CHR 0x88, CHR 0x89, CHR 0x8A, CHR 0xA8, CHR 0xA9, CHR 0xAF])
      \<or> (a = CHR 0xE2 \<and> b = CHR 0x81 \<and> c = CHR 0x9F)
      \<or> (a = CHR 0xE3 \<and> b = CHR 0x80 \<and> c = CHR 0x80)
      \<or> (a = CHR 0xEF \<and> b = CHR 0xBB \<and> c = CHR 0xBF))"

fun all_space :: "string \<Rightarrow> bool" where
  "all_space [] = True"
| "all_space [a] = is_space a"
| "all_space [a, b] = (if is_space a then is_space b else a = CHR 0xC2 \<and> b = CHR 0xA0)"
| "all_space (a # b # c # rest) =
     (if is_space a then all_space (b # c # rest)
      else if a = CHR 0xC2 \<and> b = CHR 0xA0 then all_space (c # rest)
      else if is_space3 a b c then all_space rest
      else False)"

definition trim_is_empty :: "jsval \<Rightarrow> route_error + bool" where
  \<comment> \<open>\<open>v.trim() === ''\<close> for a truthy \<open>v\<close>: a value without \<open>trim\<close> makes the call throw\<close>
  "trim_is_empty v =
     (case v of
        JStr s \<Rightarrow> Inr (all_space s)
      | _ \<Rightarrow> Inl \<lparr>re_message = ''eventData.summary.trim is not a function'', re_code = None\<rparr>)"

record event_validation =
  ev_valid :: bool
  ev_errors :: "string list"

definition validateEventData :: "(jsval \<Rightarrow> js_date option) \<Rightarrow> jsval \<Rightarrow> route_error + event_validation" where
  "validateEventData mkDate eventData =
     (case (if \<not> truthy (js_prop eventData ''summary'') then Inr True
            else trim_is_empty (js_prop eventData ''summary'')) of
        Inl e \<Rightarrow> Inl e
      | Inr no_summary \<Rightarrow>
          (let errors1 = (if no_summary then [''Event summary is required''] else []);
               errors2 = errors1 @
                 (if \<not> truthy (js_prop eventData ''start'') then [''Event start time is required'']
                  else if mkDate (js_prop eventData ''start'') = None then [''Invalid start time format'']
                  else []);
               errors3 = errors2 @
                 (if \<not> truthy (js_prop eventData ''end'') then [''Event end time is required'']
                  else
                    (if mkDate (js_prop eventData ''end'') = None then [''Invalid end time format''] else [])
                    @ (if truthy (js_prop eventData ''start'')
                          \<and> (case (mkDate (js_prop eventData ''end''), mkDate (js_prop eventData ''start'')) of
                                (Some endDate, Some startDate) \<Rightarrow> d_time endDate \<le> d_time startDate
                              | _ \<Rightarrow> False)
                       then [''Event end time must be after start time''] else []))
           in Inr \<lparr>ev_valid = (length errors3 = 0), ev_errors = errors3\<rparr>))"

definition buildEventResource :: "jsval \<Rightarrow> jsval" where
  "buildEventResource eventData =
     (let tz = (if truthy (js_prop eventData ''timeZone'') then [(''timeZone'', js_prop eventData ''timeZone'')] else [])
      in JObj ([(''summary'', js_prop eventData ''summary'')]
         @ (if truthy (js_prop eventData ''start'')
            then [(''start'', JObj ((''dateTime'', js_prop eventData ''start'') # tz))] else [])
         @ (if truthy (js_prop eventData ''end'')
            then [(''end'', JObj ((''dateTime'', js_prop eventData ''end'') # tz))] else [])
         @ (if truthy (js_prop eventData ''description'')
            then [(''description'', js_prop eventData ''description'')] else [])
         @ (if truthy (js_prop eventData ''location'')
            then [(''location'', js_prop eventData ''location'')] else [])
         @ (if truthy (js_prop eventData ''attendees'')
            then [(''attendees'', js_prop eventData ''attendees'')] else [])
         @ (if truthy (js_prop eventData ''reminders'')
            then [(''reminders'', js_prop eventData ''reminders'')] else [])))"

definition invalid_event_response :: "string list \<Rightarrow> response" where
  "invalid_event_response errs =
     \<lparr>res_status = 400,
      res_body = JObj [(''success'', JBool False), (''error'', JStr ''Invalid event data''),
                       (''errors'', JArr (map JStr errs))]\<rparr>"

text \<open>
  The write routes. \<open>upstream\<close> is what \<open>getCalendar()\<close> followed by the awaited
  \<open>calendar.events.insert\<close>, \<open>update\<close> or \<open>delete\<close> does: it throws, or it resolves
  with a response whose \<open>data\<close> is the value given. \<open>Inl\<close> in a \<open>try\<close> body is an
  exception on its way to the \<open>catch\<close>.
\<close>

definition post_events ::
  "(jsval \<Rightarrow> js_date option) \<Rightarrow> cache \<Rightarrow> jsval \<Rightarrow> route_error + jsval \<Rightarrow> response \<times> cache" where
  \<comment> \<open>\<open>POST /events\<close>\<close>
  "post_events mkDate c eventData upstream =
     (case (case validateEventData mkDate eventData of
              Inl e \<Rightarrow> (Inl e, c)
            | Inr validation \<Rightarrow>
                if \<not> ev_valid validation then (Inr (invalid_event_response (ev_errors validation)), c)
                else
                  (case upstream of
                     Inl e \<Rightarrow> (Inl e, c)
                   | Inr data \<Rightarrow>
                       (let eventDate = getDateKey mkDate (js_prop eventData ''start'');
                            c' = snd (clearDateCache c eventDate)
                        in (Inr \<lparr>res_status = 201,
                                 res_body = JObj [(''success'', JBool True), (''eventId'', js_prop data ''id''),
                                                  (''event'', data)]\<rparr>, c')))) of
        (Inr resp, c') \<Rightarrow> (resp, c')
      | (Inl error, c') \<Rightarrow>
          (\<lparr>res_status = 500,
            res_body = JObj [(''success'', JBool False), (''error'', JStr ''Failed to create event''),
                             (''message'', JStr (re_message error))]\<rparr>, c'))"

definition put_event ::
  "(jsval \<Rightarrow> js_date option) \<Rightarrow> cache \<Rightarrow> string \<Rightarrow> jsval \<Rightarrow> route_error + jsval \<Rightarrow> response \<times> cache" where
  \<comment> \<open>\<open>PUT /events/:eventId\<close>\<close>
  "put_event mkDate c eventId eventData upstream =
     (case (case validateEventData mkDate eventData of
              Inl e \<Rightarrow> (Inl e, c)
            | Inr validation \<Rightarrow>
                if \<not> ev_valid validation then (Inr (invalid_event_response (ev_errors validation)), c)
                else
                  (case upstream of
                     Inl e \<Rightarrow> (Inl e, c)
                   | Inr data \<Rightarrow>
                       (let eventDate = getDateKey mkDate (js_prop eventData ''start'');
                            c' = snd (clearDateCache c eventDate)
                        in (Inr \<lparr>res_status = 200,
                                 res_body = JObj [(''success'', JBool True), (''event'', data)]\<rparr>, c')))) of
        (Inr resp, c') \<Rightarrow> (resp, c')
      | (Inl error, c') \<Rightarrow>
          (if re_code error = Some 404
           then \<lparr>res_status = 404,
                 res_body = JObj [(''success'', JBool False), (''error'', JStr ''Event not found''),
                                  (''message'', JStr (''Event with ID '' @ eventId @ '' not found''))]\<rparr>
           else \<lparr>res_status = 500,
                 res_body = JObj [(''success'', JBool False), (''error'', JStr ''Failed to update event''),
                                  (''message'', JStr (re_message error))]\<rparr>, c'))"

definition delete_event :: "cache \<Rightarrow> string \<Rightarrow> route_error + jsval \<Rightarrow> response \<times> cache" where
  \<comment> \<open>\<open>DELETE /events/:eventId\<close>: "Clear entire cache since we don't know which date this
      event was on"\<close>
  \<open>delete_event c eventId upstream =
     (case upstream of
        Inr data \<Rightarrow>
          (\<lparr>res_status = 200,
            res_body = JObj [(''success'', JBool True), (''message'', JStr ''Event deleted successfully'')]\<rparr>,
           clearAllCalendarCache c)
      | Inl error \<Rightarrow>
          (if re_code error = Some 404
           then \<lparr>res_status = 404,
                 res_body = JObj [(''success'', JBool False), (''error'', JStr ''Event not found''),
                                  (''message'', JStr (''Event with ID '' @ eventId @ '' not found''))]\<rparr>
           else \<lparr>res_status = 500,
                 res_body = JObj [(''success'', JBool False), (''error'', JStr ''Failed to delete event''),
                                  (''message'', JStr (re_message error))]\<rparr>, c))\<close>

text \<open>
  Example inputs for the calendar routes: the \<open>Date\<close> of the two strings used, a cache
  written at time 0 with the lists of two days and the today aggregate, and the body of a
  request that moves the event \<open>e1\<close>, cached under 6 January, to 7 January.
\<close>

definition date_table :: "jsval \<Rightarrow> js_date option" where
  "date_table v =
     (if v = JStr ''2025-01-07T10:00:00''
      then Some \<lparr>d_time = 1736244000000, d_year = 2025, d_month = 0, d_day = 7\<rparr>
      else if v = JStr ''2025-01-07T10:30:00''
      then Some \<lparr>d_time = 1736245800000, d_year = 2025, d_month = 0, d_day = 7\<rparr>
      else None)"

definition event_e1 :: jsval where
  "event_e1 = JObj [(''id'', JStr ''e1''), (''summary'', JStr ''Standup'')]"

definition cal_cache :: cache where
  "cal_cache =
     cache_set 0
       (cache_set 0
          (cache_set 0 [] ''calendar:events:2025-01-06'' (JArr [event_e1]) 900)
          ''calendar:events:2025-01-07'' (JArr []) 900)
       ''unified:today'' (JObj [(''date'', JStr ''2025-01-06''), (''events'', JArr [event_e1])]) 300"

definition moved_event :: jsval where
  "moved_event = JObj [(''summary'', JStr ''Standup''), (''start'', JStr ''2025-01-07T10:00:00''),
                      (''end'', JStr ''2025-01-07T10:30:00'')]"

section \<open>Rate limiter: properties\<close>

lemma last_of_set_last: "last_of (set_last l ty t) ty' = (if ty' = ty then t else last_of l ty')"
  by (cases ty; cases ty') simp_all

lemma ceil_div_1000: "\<lceil>rat_of_int k / 1000\<rceil> = - ((- k) div 1000)"
proof -
  have "\<lceil>rat_of_int k / rat_of_int 1000\<rceil> = - ((- k) div 1000)"
    by (rule ceiling_divide_eq_div)
  then show ?thesis by simp
qed

lemma checkRateLimit_cooling:
  "now - last_of l ty < 5000 \<Longrightarrow>
   checkRateLimit now l ty =
     \<lparr>allowed = False, timeRemaining = Some (- ((now - last_of l ty - 5000) div 1000))\<rparr>"
proof -
  assume a: "now - last_of l ty < 5000"
  have "\<lceil>rat_of_int (5000 - (now - last_of l ty)) / 1000\<rceil> = - ((- (5000 - (now - last_of l ty))) div 1000)"
    by (rule ceil_div_1000)
  also have "- (5000 - (now - last_of l ty)) = now - last_of l ty - 5000"
    by simp
  finally have c: "\<lceil>rat_of_int (5000 - (now - last_of l ty)) / 1000\<rceil> = - ((now - last_of l ty - 5000) div 1000)" .
  show ?thesis
    unfolding checkRateLimit_def RATE_LIMIT_MS_def Let_def
    using a c by simp
qed

lemma checkRateLimit_free:
  "5000 \<le> now - last_of l ty \<Longrightarrow> checkRateLimit now l ty = \<lparr>allowed = True, timeRemaining = None\<rparr>"
  by (simp add: checkRateLimit_def RATE_LIMIT_MS_def Let_def)

lemma check_after_update:
  "checkRateLimit t (updateRateLimit T l ty) ty =
     (if t - T < 5000 then \<lparr>allowed = False, timeRemaining = Some (- ((t - T - 5000) div 1000))\<rparr>
      else \<lparr>allowed = True, timeRemaining = None\<rparr>)"
proof -
  have last: "last_of (updateRateLimit T l ty) ty = T"
    by (simp add: updateRateLimit_def last_of_set_last)
  show ?thesis
  proof (cases "t - T < 5000")
    case True
    then show ?thesis using checkRateLimit_cooling [of t "updateRateLimit T l ty" ty] last by simp
  next
    case False
    then show ?thesis using checkRateLimit_free [of t "updateRateLimit T l ty" ty] last by simp
  qed
qed

text \<open>
  C6 (as amended). After \<open>updateRateLimit\<close> at time \<open>T\<close>, every \<open>checkRateLimit\<close> of the
  same class at a time strictly between \<open>T\<close> and \<open>T + 5000\<close> ms is refused, with a
  remaining-seconds value between 1 and 5 that never increases from one call to a later
  one and is strictly smaller for a call at least one second later; from \<open>T + 5000\<close> ms
  on every call is allowed.
\<close>

theorem cooldown_monotone:
  assumes "T < T1" and "T1 \<le> T2" and "T2 < T + 5000" and "T + 5000 \<le> T3"
  shows "\<exists>r1 r2.
      checkRateLimit T1 (updateRateLimit T l ty) ty = \<lparr>allowed = False, timeRemaining = Some r1\<rparr>
    \<and> checkRateLimit T2 (updateRateLimit T l ty) ty = \<lparr>allowed = False, timeRemaining = Some r2\<rparr>
    \<and> 1 \<le> r2 \<and> r2 \<le> r1 \<and> r1 \<le> 5
    \<and> (if T1 + 1000 \<le> T2 then r2 < r1 else True)
    \<and> checkRateLimit T3 (updateRateLimit T l ty) ty = \<lparr>allowed = True, timeRemaining = None\<rparr>"
proof -
  let ?l = "updateRateLimit T l ty"
  have c1: "checkRateLimit T1 ?l ty = \<lparr>allowed = False, timeRemaining = Some (- ((T1 - T - 5000) div 1000))\<rparr>"
    using assms by (simp add: check_after_update)
  have c2: "checkRateLimit T2 ?l ty = \<lparr>allowed = False, timeRemaining = Some (- ((T2 - T - 5000) div 1000))\<rparr>"
    using assms by (simp add: check_after_update)
  have c3: "checkRateLimit T3 ?l ty = \<lparr>allowed = True, timeRemaining = None\<rparr>"
    using assms by (simp add: check_after_update)
  have b1: "1 \<le> - ((T2 - T - 5000) div 1000)"
    using assms by linarith
  have b2: "- ((T2 - T - 5000) div 1000) \<le> - ((T1 - T - 5000) div 1000)"
    using assms by (simp add: zdiv_mono1)
  have b3: "- ((T1 - T - 5000) div 1000) \<le> 5"
    using assms by linarith
  have b4: "- ((T2 - T - 5000) div 1000) < - ((T1 - T - 5000) div 1000)" if a: "T1 + 1000 \<le> T2"
  proof -
    have "(T1 - T - 5000) div 1000 + 1 = (T1 - T - 5000 + 1000) div 1000"
      by simp
    also have "\<dots> \<le> (T2 - T - 5000) div 1000"
      using a by (intro zdiv_mono1) simp_all
    finally show ?thesis by simp
  qed
  show ?thesis
    unfolding c1 c2 c3 using b1 b2 b3 b4 by simp
qed

theorem cooldown_monotone_witness:
  "checkRateLimit 100 (updateRateLimit 0 initial_lastActionTime Shock) Shock
     = \<lparr>allowed = False, timeRemaining = Some 5\<rparr>
   \<and> checkRateLimit 1200 (updateRateLimit 0 initial_lastActionTime Shock) Shock
     = \<lparr>allowed = False, timeRemaining = Some 4\<rparr>
   \<and> checkRateLimit 5000 (updateRateLimit 0 initial_lastActionTime Shock) Shock
     = \<lparr>allowed = True, timeRemaining = None\<rparr>"
proof -
  have "\<exists>r1 r2.
      checkRateLimit 100 (updateRateLimit 0 initial_lastActionTime Shock) Shock
        = \<lparr>allowed = False, timeRemaining = Some r1\<rparr>
    \<and> checkRateLimit 1200 (updateRateLimit 0 initial_lastActionTime Shock) Shock
        = \<lparr>allowed = False, timeRemaining = Some r2\<rparr>
    \<and> 1 \<le> r2 \<and> r2 \<le> r1 \<and> r1 \<le> 5
    \<and> (if (100::int) + 1000 \<le> 1200 then r2 < r1 else True)
    \<and> checkRateLimit 5000 (updateRateLimit 0 initial_lastActionTime Shock) Shock
        = \<lparr>allowed = True, timeRemaining = None\<rparr>"
    by (rule cooldown_monotone) simp_all
  then show ?thesis
    by (simp add: check_after_update)
qed

text \<open>
  C6, as claimed, fails on "strictly decreasing": the remaining time is rounded up to whole
  seconds, so two checks 100 ms apart, both inside the cooldown, report the same 5 seconds.
\<close>

theorem cooldown_not_strict_counterexample:
  "checkRateLimit 100 (updateRateLimit 0 initial_lastActionTime Shock) Shock
     = \<lparr>allowed = False, timeRemaining = Some 5\<rparr>
   \<and> checkRateLimit 200 (updateRateLimit 0 initial_lastActionTime Shock) Shock
     = \<lparr>allowed = False, timeRemaining = Some 5\<rparr>
   \<and> \<not> (the (timeRemaining (checkRateLimit 200 (updateRateLimit 0 initial_lastActionTime Shock) Shock))
         < the (timeRemaining (checkRateLimit 100 (updateRateLimit 0 initial_lastActionTime Shock) Shock)))"
  by (simp add: check_after_update)

section \<open>Pavlok handlers: properties\<close>

lemma send_valid:
  "valid (validateIntensity i) \<Longrightarrow>
   sendStimulus l i r tr =
     (case r of
        Replied d \<Rightarrow>
          (Inr (JObj [(''success'', JBool True), (''type'', JStr l), (''intensity'', i), (''response'', d)]),
           tr @ [Posted l i])
      | _ \<Rightarrow> (Inl (pavlok_handleError r (''Failed to send '' @ l @ '' stimulus'')), tr @ [Posted l i]))"
  by (auto simp: sendStimulus_def validateIntensity_def isInteger_def split: if_splits upstream_reply.splits)

lemma trigger_issued_ok:
  assumes "issue_pre ty env body st" and "reply env = Replied d"
  shows "trigger ty env body st =
    (\<lparr>res_status = 200,
      res_body = JObj [(''success'', JBool True), (''type'', JStr (type_label ty)),
        (''intensity'', intensity body), (''reason'', js_or (reason body) JNull),
        (''timestamp'', JStr (now_iso env))]\<rparr>,
     st\<lparr>lastActionTime := updateRateLimit (now_update env) (lastActionTime st) ty,
        history := (if save_ok env
                    then history st @ [\<lparr>doc_type = type_key ty, doc_intensity = intensity body,
                           doc_reason = js_or (reason body) JNull, doc_success = True, doc_error = JNull\<rparr>]
                    else history st),
        trace := trace st @ [RateLimitChecked ty, Posted (type_label ty) (intensity body),
                   RateLimitUpdated ty (now_update env),
                   SaveAttempted \<lparr>doc_type = type_key ty, doc_intensity = intensity body,
                           doc_reason = js_or (reason body) JNull, doc_success = True, doc_error = JNull\<rparr>]\<rparr>)"
  using assms
  by (auto simp add: issue_pre_def trigger_def trigger_try_def send_valid logStimulus_def Let_def
      split: if_splits)

lemma trigger_issued_failed:
  assumes "issue_pre ty env body st" and "\<not> upstream_ok (reply env)"
  shows "trigger ty env body st =
    (handleError (pavlok_handleError (reply env) (''Failed to send '' @ type_label ty @ '' stimulus''))
        (''Failed to trigger '' @ type_label ty),
     st\<lparr>history := (if save_ok env
                    then history st @ [\<lparr>doc_type = type_key ty, doc_intensity = intensity body,
                           doc_reason = js_or (reason body) JNull, doc_success = False,
                           doc_error = JStr (err_message (pavlok_handleError (reply env)
                                (''Failed to send '' @ type_label ty @ '' stimulus'')))\<rparr>]
                    else history st),
        trace := trace st @ [RateLimitChecked ty, Posted (type_label ty) (intensity body),
                   SaveAttempted \<lparr>doc_type = type_key ty, doc_intensity = intensity body,
                           doc_reason = js_or (reason body) JNull, doc_success = False,
                           doc_error = JStr (err_message (pavlok_handleError (reply env)
                                (''Failed to send '' @ type_label ty @ '' stimulus'')))\<rparr>]\<rparr>)"
  using assms
  by (cases "reply env")
     (auto simp add: issue_pre_def upstream_ok_def trigger_def trigger_try_def send_valid logStimulus_def Let_def
       split: if_splits)

lemma issued_imp_pre:
  "upstream_call_issued ty env body st \<Longrightarrow> issue_pre ty env body st"
  unfolding upstream_call_issued_def issue_pre_def new_effects_def trigger_def trigger_try_def
  by (auto simp: Let_def logStimulus_def confirmation_required_def createPavlokClient_def
        split: if_splits sum.splits prod.splits option.splits)

lemma issue_pre_save_ok: "issue_pre ty (env\<lparr>save_ok := b\<rparr>) body st = issue_pre ty env body st"
  by (simp add: issue_pre_def)

lemmas pavlok_eval =
  upstream_call_issued_def new_effects_def trigger_def trigger_try_def sendStimulus_def logStimulus_def
  env0_def env_down_def body0_def body_unconfirmed_def st0_def st_cooling_def createPavlokClient_def
  validateIntensity_def updateRateLimit_def isInteger_def checkRateLimit_def initial_lastActionTime_def
  RATE_LIMIT_MS_def upstream_ok_def Let_def

text \<open>
  C2. A request to the shock endpoint whose body has a \<open>confirm\<close> that is anything
  but the boolean \<open>true\<close> (a missing property reads as \<open>JUndefined\<close>) is answered with the 400
  confirmation error, whatever the intensity and the rate-limiter state: the handler run
  has no effect at all, so the rate limiter is not consulted, nothing is posted to the
  device and \<open>lastActionTime\<close> is unchanged.
\<close>

theorem shock_requires_confirmation:
  assumes "confirm body \<noteq> JBool True"
  shows "triggerShock env body st = (confirmation_required, st)
       \<and> res_status (fst (triggerShock env body st)) = 400
       \<and> new_effects st (snd (triggerShock env body st)) = []
       \<and> lastActionTime (snd (triggerShock env body st)) = lastActionTime st"
  using assms
  by (simp add: triggerShock_def trigger_def trigger_try_def confirmation_required_def new_effects_def)

theorem shock_requires_confirmation_witness:
  "confirm body_unconfirmed \<noteq> JBool True
   \<and> \<not> allowed (checkRateLimit (now_check env0) (lastActionTime st_cooling) Shock)
   \<and> triggerShock env0 body_unconfirmed st_cooling = (confirmation_required, st_cooling)
   \<and> res_status (fst (triggerShock env0 body_unconfirmed st_cooling)) = 400"
proof -
  have h: "confirm body_unconfirmed \<noteq> JBool True"
    by (simp add: body_unconfirmed_def)
  have c: "\<not> allowed (checkRateLimit (now_check env0) (lastActionTime st_cooling) Shock)"
    by (simp add: env0_def st_cooling_def checkRateLimit_def RATE_LIMIT_MS_def Let_def)
  show ?thesis
    using h c shock_requires_confirmation [OF h, of env0 st_cooling] by blast
qed

text \<open>
  C9. Whenever a handler run issued the device call (whether the call then succeeded or
  failed), a failing \<open>stimulus.save()\<close> changes neither the response nor the
  rate-limit state: the run with a failing save answers exactly as the run with a working
  one, and only the history differs. The save is attempted once, as the last effect of the
  run and after the device call, with a record whose \<open>success\<close> field is the outcome
  of the device call; with a working save that record is appended to the history.
\<close>

theorem logging_failure_never_changes_outcome:
  assumes "upstream_call_issued ty env body st"
  shows "fst (trigger ty (env\<lparr>save_ok := False\<rparr>) body st) = fst (trigger ty (env\<lparr>save_ok := True\<rparr>) body st)
       \<and> lastActionTime (snd (trigger ty (env\<lparr>save_ok := False\<rparr>) body st))
           = lastActionTime (snd (trigger ty (env\<lparr>save_ok := True\<rparr>) body st))
       \<and> history (snd (trigger ty (env\<lparr>save_ok := False\<rparr>) body st)) = history st
       \<and> (\<exists>doc. doc_type doc = type_key ty \<and> doc_success doc = upstream_ok (reply env)
             \<and> history (snd (trigger ty (env\<lparr>save_ok := True\<rparr>) body st)) = history st @ [doc]
             \<and> new_effects st (snd (trigger ty env body st))
                 = [RateLimitChecked ty, Posted (type_label ty) (intensity body)]
                   @ (if upstream_ok (reply env) then [RateLimitUpdated ty (now_update env)] else [])
                   @ [SaveAttempted doc])"
proof -
  have pre: "issue_pre ty env body st"
    using assms by (rule issued_imp_pre)
  show ?thesis
  proof (cases "reply env")
    case (Replied d)
    then have ok: "upstream_ok (reply env)"
      by (simp add: upstream_ok_def)
    show ?thesis
      using pre Replied ok issue_pre_save_ok 
        trigger_issued_ok [of ty "env\<lparr>save_ok := False\<rparr>" body st d]
        trigger_issued_ok [of ty "env\<lparr>save_ok := True\<rparr>" body st d]
        trigger_issued_ok [of ty env body st d]
      by (simp add: new_effects_def)
  next
    case (HttpFailure n m)
    then have ok: "\<not> upstream_ok (reply env)"
      by (simp add: upstream_ok_def)
    show ?thesis
      using pre ok issue_pre_save_ok 
        trigger_issued_failed [of ty "env\<lparr>save_ok := False\<rparr>" body st]
        trigger_issued_failed [of ty "env\<lparr>save_ok := True\<rparr>" body st]
        trigger_issued_failed [of ty env body st]
      by (simp add: new_effects_def)
  next
    case (NoResponse m)
    then have ok: "\<not> upstream_ok (reply env)"
      by (simp add: upstream_ok_def)
    show ?thesis
      using pre ok issue_pre_save_ok 
        trigger_issued_failed [of ty "env\<lparr>save_ok := False\<rparr>" body st]
        trigger_issued_failed [of ty "env\<lparr>save_ok := True\<rparr>" body st]
        trigger_issued_failed [of ty env body st]
      by (simp add: new_effects_def)
  qed
qed

theorem logging_failure_never_changes_outcome_witness:
  "upstream_call_issued Shock env0 body0 st0
   \<and> fst (trigger Shock (env0\<lparr>save_ok := False\<rparr>) body0 st0)
       = fst (trigger Shock (env0\<lparr>save_ok := True\<rparr>) body0 st0)
   \<and> res_status (fst (trigger Shock (env0\<lparr>save_ok := False\<rparr>) body0 st0)) = 200
   \<and> history (snd (trigger Shock (env0\<lparr>save_ok := False\<rparr>) body0 st0)) = []"
proof -
  have h: "upstream_call_issued Shock env0 body0 st0"
    by (simp add: pavlok_eval)
  have s: "res_status (fst (trigger Shock (env0\<lparr>save_ok := False\<rparr>) body0 st0)) = 200"
    by (simp add: pavlok_eval)
  have e: "history st0 = []"
    by (simp add: st0_def)
  show ?thesis
    using h s e logging_failure_never_changes_outcome [OF h] by metis
qed

text \<open>
  C10. When the device call of a trigger (beep, vibration or shock) was issued and threw,
  \<open>lastActionTime\<close> is exactly what it was before the request: \<open>updateRateLimit\<close>
  did not run, the effects of the run are the rate-limit check, the device call and the
  save of a history record with \<open>success = false\<close> (appended to the history when the
  save works), and a check of the same class at any later time is still allowed.
\<close>

theorem failed_trigger_starts_no_cooldown:
  assumes "upstream_call_issued ty env body st" and "\<not> upstream_ok (reply env)"
    and "now_check env \<le> later"
  shows "lastActionTime (snd (trigger ty env body st)) = lastActionTime st
       \<and> allowed (checkRateLimit later (lastActionTime (snd (trigger ty env body st))) ty)
       \<and> (\<exists>doc. doc_type doc = type_key ty \<and> doc_success doc = False
             \<and> new_effects st (snd (trigger ty env body st))
                 = [RateLimitChecked ty, Posted (type_label ty) (intensity body), SaveAttempted doc]
             \<and> history (snd (trigger ty env body st))
                 = (if save_ok env then history st @ [doc] else history st))"
proof -
  have pre: "issue_pre ty env body st"
    using assms(1) by (rule issued_imp_pre)
  then have "allowed (checkRateLimit (now_check env) (lastActionTime st) ty)"
    by (simp add: issue_pre_def)
  then have "5000 \<le> now_check env - last_of (lastActionTime st) ty"
    by (simp add: checkRateLimit_def RATE_LIMIT_MS_def Let_def split: if_splits)
  then have "5000 \<le> later - last_of (lastActionTime st) ty"
    using assms(3) by simp
  then have later: "allowed (checkRateLimit later (lastActionTime st) ty)"
    by (simp add: checkRateLimit_free)
  show ?thesis
    using later trigger_issued_failed [OF pre assms(2)]
    by (simp add: new_effects_def)
qed

theorem failed_trigger_starts_no_cooldown_witness:
  "upstream_call_issued Vibrate env_down body0 st0 \<and> \<not> upstream_ok (reply env_down)
   \<and> now_check env_down \<le> now_check env_down + 1
   \<and> lastActionTime (snd (trigger Vibrate env_down body0 st0)) = lastActionTime st0
   \<and> allowed (checkRateLimit (now_check env_down + 1)
         (lastActionTime (snd (trigger Vibrate env_down body0 st0))) Vibrate)
   \<and> res_status (fst (trigger Vibrate env_down body0 st0)) = 503"
proof -
  have h: "upstream_call_issued Vibrate env_down body0 st0"
    by (simp add: pavlok_eval)
  have f: "\<not> upstream_ok (reply env_down)"
    by (simp add: env_down_def upstream_ok_def)
  have t: "now_check env_down \<le> now_check env_down + 1"
    by simp
  have s: "res_status (fst (trigger Vibrate env_down body0 st0)) = 503"
    by (simp add: pavlok_eval handleError_def pavlok_handleError_def body_message_def msg_or_def)
  show ?thesis
    using h f s t failed_trigger_starts_no_cooldown [OF h f t] by blast
qed

section \<open>Strava client: properties\<close>

lemmas strava_eval = ensureValidToken_def needs_refresh_def refreshToken_m_def refresh_send_def
  refresh_receive_def TOKEN_REFRESH_BUFFER_def initializeClient_def strava0_def strava_manual_def
  tokens0_def tokens1_def tokens2_def Let_def getAthlete_def client_get_def reauthorize_error_def conc0_def

lemma strava0_constructed: "new_StravaClient None (Some tokens0) = Inr (client strava0)"
  by (simp add: new_StravaClient_def client_from_file_def tokens0_def strava0_def initializeClient_def)

lemma strava_manual_constructed: "new_StravaClient (Some ''tok'') (Some tokens0) = Inr (client strava_manual)"
  by (simp add: new_StravaClient_def strava_manual_def initializeClient_def)

lemma ensure_api_requests: "api_requests (snd (ensureValidToken now_ms r w st)) = api_requests st"
  by (cases r)
     (simp_all add: ensureValidToken_def refreshToken_m_def refresh_send_def refresh_receive_def)

lemma client_get_requests:
  "api_requests (snd (client_get path msg api st)) = api_requests st @ [(path, client_auth (client st))]"
  by (cases api) (simp_all add: client_get_def Let_def)

lemma client_get_refresh_requests:
  "refresh_requests (snd (client_get path msg api st)) = refresh_requests st"
  by (cases api) (simp_all add: client_get_def Let_def)

lemma getAthlete_after_check:
  assumes "ensureValidToken now_ms r w st = (Inr (), st')"
  shows "getAthlete now_ms r w api st = client_get (Path ''/athlete'') ''Failed to fetch athlete profile'' api st'"
  using assms by (simp add: getAthlete_def)

lemma getActivities_after_check:
  assumes "ensureValidToken now_ms r w st = (Inr (), st')" and "params \<noteq> JNull"
  shows "getActivities now_ms r w api params st
       = client_get (Path ''/athlete/activities'') ''Failed to fetch activities'' api st'"
  using assms by (simp add: getActivities_def)

lemma getActivity_after_check:
  assumes "ensureValidToken now_ms r w st = (Inr (), st')"
  shows "getActivity now_ms r w api activityId st
       = client_get (Path (''/activities/'' @ activityId)) (''Failed to fetch activity '' @ activityId) api st'"
  using assms by (simp add: getActivity_def)

lemma getAthleteStats_after_check:
  assumes "ensureValidToken now_ms r w st = (Inr (), st')" and "athleteId \<noteq> ''current''"
  shows "getAthleteStats now_ms r w now2 r2 w2 api_athlete api athleteId st
       = client_get (PathWithId ''/athletes/'' (JStr athleteId) ''/stats'') ''Failed to fetch athlete stats'' api st'"
  using assms by (simp add: getAthleteStats_def)

lemma getAthleteStats_current_after_check:
  assumes "ensureValidToken now_ms r w st = (Inr (), st')"
    and "getAthlete now2 r2 w2 api_athlete st' = (Inr athlete, st'')"
    and "athlete \<noteq> JNull" and "athlete \<noteq> JUndefined"
  shows "getAthleteStats now_ms r w now2 r2 w2 api_athlete api ''current'' st
       = client_get (PathWithId ''/athletes/'' (js_prop athlete ''id'') ''/stats'') ''Failed to fetch athlete stats''
           api st''"
  using assms by (simp add: getAthleteStats_def js_member_def)


text \<open>
  C5, as claimed, fails in two places. On the boundary: with \<open>expiresAt - now\<close> exactly
  300 the test \<open>timeUntilExpiry < TOKEN_REFRESH_BUFFER\<close> is false and no refresh request
  is made. And for a client constructed with an explicit token: it has no \<open>expiresAt\<close>,
  so \<open>expiresAt - now\<close> is not greater than the buffer, yet it never refreshes and sends
  the API request with the token it was given.
\<close>

theorem refresh_boundary_counterexample:
  "expiresAt (client strava0) = Some 1300 \<and> 1300 - 1000000 div 1000 = TOKEN_REFRESH_BUFFER
   \<and> ensureValidToken 1000000 (TokenOk tokens1) True strava0 = (Inr (), strava0)
   \<and> refresh_requests (snd (ensureValidToken 1000000 (TokenOk tokens1) True strava0)) = []
   \<and> manualToken (client strava_manual) \<and> expiresAt (client strava_manual) = None
   \<and> refresh_requests (snd (getAthlete 1000000 (TokenOk tokens1) True (Replied JNull) strava_manual)) = []
   \<and> api_requests (snd (getAthlete 1000000 (TokenOk tokens1) True (Replied JNull) strava_manual))
       = [(Path ''/athlete'', ''Bearer tok'')]"
  by (simp add: strava_eval)

text \<open>
  C5 (as amended). Every API method (\<open>getAthlete\<close>, \<open>getActivities\<close>,
  \<open>getActivity\<close>, \<open>getAthleteStats\<close>) first awaits \<open>_ensureValidToken\<close>. On a client
  made from the stored tokens that check does nothing (no request, state unchanged) when
  \<open>expiresAt - now\<close> is 300 seconds or more, and when it is less than 300 it posts one
  refresh request carrying the stored refresh token, makes no API request itself, and on
  success leaves the client with the new access token. On a client constructed with an
  explicit token the check never does anything. When the check has succeeded, the method
  sends its API request with the \<open>Authorization\<close> header of the client as the check
  left it, so a refresh comes before the API request; \<open>getAthleteStats('current')\<close> first
  runs \<open>getAthlete\<close> from that state and then sends its own request in the same way.
\<close>

theorem refresh_iff_inside_buffer:
  "(manualToken (client st) \<longrightarrow> ensureValidToken now_ms r w st = (Inr (), st))
   \<and> (\<not> manualToken (client st) \<and> expiresAt (client st) = Some expiry \<and> 300 \<le> expiry - now_ms div 1000
        \<longrightarrow> ensureValidToken now_ms r w st = (Inr (), st))
   \<and> (\<not> manualToken (client st) \<and> expiresAt (client st) = Some expiry \<and> expiry - now_ms div 1000 < 300
        \<longrightarrow> refresh_requests (snd (ensureValidToken now_ms r w st))
              = refresh_requests st @ [refreshToken (client st)]
            \<and> api_requests (snd (ensureValidToken now_ms r w st)) = api_requests st
            \<and> ensureValidToken now_ms (TokenOk td) True st
              = (Inr (), st\<lparr>refresh_requests := refresh_requests st @ [refreshToken (client st)],
                           token_file := Some td,
                           client := (client st)\<lparr>accessToken := access_token td,
                              refreshToken := refresh_token td, expiresAt := Some (expires_at td),
                              client_auth := ''Bearer '' @ access_token td\<rparr>\<rparr>))
   \<and> (ensureValidToken now_ms r w st = (Inr (), st')
        \<longrightarrow> api_requests (snd (getAthlete now_ms r w api st))
              = api_requests st @ [(Path ''/athlete'', client_auth (client st'))]
            \<and> (params \<noteq> JNull \<longrightarrow>
                 api_requests (snd (getActivities now_ms r w api params st))
                   = api_requests st @ [(Path ''/athlete/activities'', client_auth (client st'))])
            \<and> api_requests (snd (getActivity now_ms r w api activityId st))
              = api_requests st @ [(Path (''/activities/'' @ activityId), client_auth (client st'))]
            \<and> (athleteId \<noteq> ''current'' \<longrightarrow>
                 api_requests (snd (getAthleteStats now_ms r w now2 r2 w2 api_athlete api athleteId st))
                   = api_requests st
                     @ [(PathWithId ''/athletes/'' (JStr athleteId) ''/stats'', client_auth (client st'))])
            \<and> (getAthlete now2 r2 w2 api_athlete st' = (Inr athlete, st'')
                   \<and> athlete \<noteq> JNull \<and> athlete \<noteq> JUndefined \<longrightarrow>
                 api_requests (snd (getAthleteStats now_ms r w now2 r2 w2 api_athlete api ''current'' st))
                   = api_requests st''
                     @ [(PathWithId ''/athletes/'' (js_prop athlete ''id'') ''/stats'', client_auth (client st''))]))"
proof (intro conjI impI)
  assume "manualToken (client st)"
  then show "ensureValidToken now_ms r w st = (Inr (), st)"
    by (simp add: ensureValidToken_def)
next
  assume "\<not> manualToken (client st) \<and> expiresAt (client st) = Some expiry \<and> 300 \<le> expiry - now_ms div 1000"
  then show "ensureValidToken now_ms r w st = (Inr (), st)"
    by (simp add: ensureValidToken_def needs_refresh_def TOKEN_REFRESH_BUFFER_def Let_def)
next
  assume a: "\<not> manualToken (client st) \<and> expiresAt (client st) = Some expiry \<and> expiry - now_ms div 1000 < 300"
  then have e: "ensureValidToken now_ms q v st = refreshToken_m q v st" for q v
    by (simp add: ensureValidToken_def needs_refresh_def TOKEN_REFRESH_BUFFER_def Let_def)
  show "refresh_requests (snd (ensureValidToken now_ms r w st)) = refresh_requests st @ [refreshToken (client st)]"
    unfolding e by (cases r) (simp_all add: refreshToken_m_def refresh_send_def refresh_receive_def)
  show "api_requests (snd (ensureValidToken now_ms r w st)) = api_requests st"
    by (rule ensure_api_requests)
  show "ensureValidToken now_ms (TokenOk td) True st
      = (Inr (), st\<lparr>refresh_requests := refresh_requests st @ [refreshToken (client st)],
                   token_file := Some td,
                   client := (client st)\<lparr>accessToken := access_token td,
                      refreshToken := refresh_token td, expiresAt := Some (expires_at td),
                      client_auth := ''Bearer '' @ access_token td\<rparr>\<rparr>)"
    unfolding e by (simp add: refreshToken_m_def refresh_send_def refresh_receive_def initializeClient_def)
next
  assume c: "ensureValidToken now_ms r w st = (Inr (), st')"
  have r: "api_requests st' = api_requests st"
    using ensure_api_requests [of now_ms r w st] c by simp
  show "api_requests (snd (getAthlete now_ms r w api st))
      = api_requests st @ [(Path ''/athlete'', client_auth (client st'))]"
    by (simp add: getAthlete_after_check [OF c] client_get_requests r)
  show "api_requests (snd (getActivity now_ms r w api activityId st))
      = api_requests st @ [(Path (''/activities/'' @ activityId), client_auth (client st'))]"
    by (simp add: getActivity_after_check [OF c] client_get_requests r)
  show "api_requests (snd (getActivities now_ms r w api params st))
      = api_requests st @ [(Path ''/athlete/activities'', client_auth (client st'))]"
    if "params \<noteq> JNull"
    by (simp add: getActivities_after_check [OF c that] client_get_requests r)
  show "api_requests (snd (getAthleteStats now_ms r w now2 r2 w2 api_athlete api athleteId st))
      = api_requests st @ [(PathWithId ''/athletes/'' (JStr athleteId) ''/stats'', client_auth (client st'))]"
    if "athleteId \<noteq> ''current''"
    by (simp add: getAthleteStats_after_check [OF c that] client_get_requests r)
  show "api_requests (snd (getAthleteStats now_ms r w now2 r2 w2 api_athlete api ''current'' st))
      = api_requests st''
        @ [(PathWithId ''/athletes/'' (js_prop athlete ''id'') ''/stats'', client_auth (client st''))]"
    if "getAthlete now2 r2 w2 api_athlete st' = (Inr athlete, st'') \<and> athlete \<noteq> JNull \<and> athlete \<noteq> JUndefined"
    using that by (simp add: getAthleteStats_current_after_check [OF c] client_get_requests)
qed

theorem refresh_iff_inside_buffer_witness:
  "\<not> manualToken (client strava0) \<and> expiresAt (client strava0) = Some 1300
   \<and> 1300 - 1001000 div 1000 < (300 :: int) \<and> (300 :: int) \<le> 1300 - 1000000 div 1000
   \<and> refresh_requests (snd (ensureValidToken 1001000 (TokenOk tokens1) True strava0)) = [''r0'']
   \<and> ensureValidToken 1000000 (TokenOk tokens1) True strava0 = (Inr (), strava0)
   \<and> api_requests (snd (getActivity 1000000 (TokenOk tokens1) True (Replied JNull) ''42'' strava0))
       = [(Path ''/activities/42'', ''Bearer a0'')]
   \<and> api_requests (snd (getActivity 1001000 (TokenOk tokens1) True (Replied JNull) ''42'' strava0))
       = [(Path ''/activities/42'', ''Bearer a1'')]
   \<and> manualToken (client strava_manual)
   \<and> ensureValidToken 1001000 (TokenOk tokens1) True strava_manual = (Inr (), strava_manual)"
proof -
  have h: "\<not> manualToken (client strava0)" "expiresAt (client strava0) = Some 1300"
    "refreshToken (client strava0) = ''r0''" "refresh_requests strava0 = []" "api_requests strava0 = []"
    "client_auth (client strava0) = ''Bearer a0''"
    by (simp_all add: strava0_def)
  have m: "manualToken (client strava_manual)"
    by (simp add: strava_manual_def)
  have t: "1300 - 1001000 div 1000 < (300 :: int)" "(300 :: int) \<le> 1300 - 1000000 div 1000"
    by simp_all
  note inside = refresh_iff_inside_buffer [of strava0 1001000 "TokenOk tokens1" True 1300 tokens1]
  note outside = refresh_iff_inside_buffer [of strava0 1000000 "TokenOk tokens1" True 1300 tokens1 strava0
      "Replied JNull" JUndefined "''42''" "''7''"]
  note manual = refresh_iff_inside_buffer [of strava_manual 1001000 "TokenOk tokens1" True]
  have a: "refresh_requests (snd (ensureValidToken 1001000 (TokenOk tokens1) True strava0)) = [''r0'']"
    using inside h t by simp
  have b: "ensureValidToken 1000000 (TokenOk tokens1) True strava0 = (Inr (), strava0)"
    using outside h t by blast
  have c: "api_requests (snd (getActivity 1000000 (TokenOk tokens1) True (Replied JNull) ''42'' strava0))
       = [(Path ''/activities/42'', ''Bearer a0'')]"
    using outside b h by simp
  have d: "api_requests (snd (getActivity 1001000 (TokenOk tokens1) True (Replied JNull) ''42'' strava0))
       = [(Path ''/activities/42'', ''Bearer a1'')]"
    by (simp add: strava_eval getActivity_def)
  have e: "ensureValidToken 1001000 (TokenOk tokens1) True strava_manual = (Inr (), strava_manual)"
    using manual m by blast
  show ?thesis
    using h(1,2) t a b c d m e by blast
qed




lemma client_refresh_send: "client (refresh_send st) = client st"
  by (simp add: refresh_send_def)

lemma arrivals_in_flight:
  assumes "\<not> manualToken (client (strava s))"
    and "list_all (\<lambda>t. needs_refresh t (client (strava s))) ts"
  shows "in_flight (conc_run (arrivals ts i) s)
           = in_flight s @ map (\<lambda>j. (j, refreshToken (client (strava s)))) [i..<i + length ts]
       \<and> refresh_requests (strava (conc_run (arrivals ts i) s))
           = refresh_requests (strava s) @ replicate (length ts) (refreshToken (client (strava s)))"
  using assms
proof (induction ts arbitrary: s i)
  case Nil
  then show ?case by simp
next
  case (Cons t ts)
  let ?s1 = "conc_step (Call i t) s"
  have s1: "?s1 = s\<lparr>strava := refresh_send (strava s),
                     in_flight := in_flight s @ [(i, refreshToken (client (strava s)))]\<rparr>"
    using Cons.prems by simp
  have c1: "client (strava ?s1) = client (strava s)"
    by (subst s1) (simp add: client_refresh_send)
  have ih: "in_flight (conc_run (arrivals ts (Suc i)) ?s1)
           = in_flight ?s1 @ map (\<lambda>j. (j, refreshToken (client (strava ?s1)))) [Suc i..<Suc i + length ts]
       \<and> refresh_requests (strava (conc_run (arrivals ts (Suc i)) ?s1))
           = refresh_requests (strava ?s1) @ replicate (length ts) (refreshToken (client (strava ?s1)))"
    using Cons.prems by (intro Cons.IH) (simp_all add: client_refresh_send)
  have up: "[i..<i + length (t # ts)] = i # [Suc i..<Suc i + length ts]"
    by (subst upt_rec) simp
  have rr: "refresh_requests (strava ?s1) = refresh_requests (strava s) @ [refreshToken (client (strava s))]"
    by (subst s1) (simp add: refresh_send_def)
  have fl: "in_flight ?s1 = in_flight s @ [(i, refreshToken (client (strava s)))]"
    by (subst s1) simp
  show ?case
    using ih unfolding c1 up rr fl by (simp add: replicate_append_same)
qed

lemma call_settle_in_flight:
  "in_flight s = [] \<Longrightarrow> in_flight (conc_step (Settle i r w) (conc_step (Call i t) s)) = []"
  by (simp split: option.splits prod.splits sum.splits)

lemma call_in_flight:
  "in_flight s = [] \<Longrightarrow>
   length (in_flight (conc_step (Call i t) s)) \<le> 1
   \<and> list_all (\<lambda>p. snd p = refreshToken (client (strava (conc_step (Call i t) s))))
        (in_flight (conc_step (Call i t) s))"
  by (simp add: client_refresh_send)

lemma seq_prefix_in_flight:
  "in_flight s = [] \<Longrightarrow>
   length (in_flight (conc_run (take k (seq_calls cs i)) s)) \<le> 1
   \<and> list_all (\<lambda>p. snd p = refreshToken (client (strava (conc_run (take k (seq_calls cs i)) s))))
        (in_flight (conc_run (take k (seq_calls cs i)) s))"
proof (induction cs arbitrary: s i k)
  case Nil
  then show ?case by simp
next
  case (Cons c cs)
  obtain t r w where c: "c = (t, r, w)"
    by (cases c) auto
  show ?case
  proof (cases k)
    case 0
    then show ?thesis using Cons.prems by simp
  next
    case (Suc k1)
    show ?thesis
    proof (cases k1)
      case 0
      have "conc_run (take k (seq_calls (c # cs) i)) s = conc_step (Call i t) s"
        using 0 Suc c by simp
      then show ?thesis
        using call_in_flight [OF Cons.prems, of i t] by simp
    next
      case (Suc k2)
      have e: "conc_run (take k (seq_calls (c # cs) i)) s
             = conc_run (take k2 (seq_calls cs (Suc i))) (conc_step (Settle i r w) (conc_step (Call i t) s))"
        using Suc \<open>k = Suc k1\<close> c by simp
      show ?thesis
        unfolding e by (rule Cons.IH) (rule call_settle_in_flight [OF Cons.prems])
    qed
  qed
qed

lemma seq_no_refresh:
  assumes "in_flight s = []"
    and "list_all (\<lambda>c. \<not> needs_refresh (fst c) (client (strava s))) cs"
  shows "conc_run (seq_calls cs i) s
       = s\<lparr>finished := finished s @ map (\<lambda>j. (j, Inr (client_auth (client (strava s))))) [i..<i + length cs]\<rparr>"
  using assms
proof (induction cs arbitrary: s i)
  case Nil
  then show ?case by simp
next
  case (Cons c cs)
  obtain t r w where c: "c = (t, r, w)"
    by (cases c) auto
  let ?s1 = "s\<lparr>finished := finished s @ [(i, Inr (client_auth (client (strava s))))]\<rparr>"
  have st: "conc_step (Settle i r w) (conc_step (Call i t) s) = ?s1"
    using Cons.prems c by simp
  have ih: "conc_run (seq_calls cs (Suc i)) ?s1
       = ?s1\<lparr>finished := finished ?s1 @ map (\<lambda>j. (j, Inr (client_auth (client (strava ?s1))))) [Suc i..<Suc i + length cs]\<rparr>"
    using Cons.prems by (intro Cons.IH) simp_all
  have up: "[i..<i + length (c # cs)] = i # [Suc i..<Suc i + length cs]"
    by (subst upt_rec) simp
  have "conc_run (seq_calls (c # cs) i) s = conc_run (seq_calls cs (Suc i)) ?s1"
    using st c by simp
  then show ?case
    unfolding ih up by simp
qed


text \<open>
  C1, as claimed, fails: two callers that enter while the token is inside the buffer both
  post a refresh request with the refresh token \<open>r0\<close>; once the first has settled and
  rotated the stored refresh token to \<open>r1\<close>, the second is still in flight with
  \<open>r0\<close>; and the two callers go on with different access tokens.
\<close>

theorem concurrent_refresh_counterexample:
  "needs_refresh 1001000 (client (strava conc0))
   \<and> in_flight (conc_run [Call 0 1001000, Call 1 1001000] conc0) = [(0, ''r0''), (1, ''r0'')]
   \<and> refreshToken (client (strava (conc_run [Call 0 1001000, Call 1 1001000,
         Settle 0 (TokenOk tokens1) True] conc0))) = ''r1''
   \<and> in_flight (conc_run [Call 0 1001000, Call 1 1001000,
         Settle 0 (TokenOk tokens1) True] conc0) = [(1, ''r0'')]
   \<and> finished (conc_run [Call 0 1001000, Call 1 1001000,
         Settle 0 (TokenOk tokens1) True, Settle 1 (TokenOk tokens2) True] conc0)
       = [(0, Inr ''Bearer a1''), (1, Inr ''Bearer a2'')]"
  by (simp add: strava_eval)

text \<open>
  C1 (as amended). The client shares no in-flight refresh. Callers that all enter, inside
  the buffer, before any refresh has settled each post their own refresh request, all with
  the same stored refresh token: \<open>N\<close> callers, \<open>N\<close> requests in flight. When the
  calls do not overlap (each runs to its end before the next enters), at every moment at
  most one refresh request is in flight and it carries the refresh token stored at that
  moment; and if the first call's refresh succeeds with a token that is outside the buffer
  at the later calls, one refresh request is posted in all and every caller goes on with
  that same new access token.
\<close>

theorem refresh_not_shared:
  assumes "\<not> manualToken (client (strava s))" and "in_flight s = []"
  shows "(list_all (\<lambda>t. needs_refresh t (client (strava s))) ts \<longrightarrow>
            in_flight (conc_run (arrivals ts 0) s)
              = map (\<lambda>j. (j, refreshToken (client (strava s)))) [0..<length ts])
       \<and> length (in_flight (conc_run (take k (seq_calls cs 0)) s)) \<le> 1
       \<and> list_all (\<lambda>p. snd p = refreshToken (client (strava (conc_run (take k (seq_calls cs 0)) s))))
            (in_flight (conc_run (take k (seq_calls cs 0)) s))
       \<and> (needs_refresh t0 (client (strava s))
            \<and> list_all (\<lambda>c. 300 \<le> expires_at td - fst c div 1000) rest \<longrightarrow>
            finished (conc_run (seq_calls ((t0, TokenOk td, True) # rest) 0) s)
              = finished s @ map (\<lambda>j. (j, Inr (''Bearer '' @ access_token td))) [0..<Suc (length rest)]
          \<and> refresh_requests (strava (conc_run (seq_calls ((t0, TokenOk td, True) # rest) 0) s))
              = refresh_requests (strava s) @ [refreshToken (client (strava s))])"
proof (intro conjI impI)
  assume "list_all (\<lambda>t. needs_refresh t (client (strava s))) ts"
  then show "in_flight (conc_run (arrivals ts 0) s)
      = map (\<lambda>j. (j, refreshToken (client (strava s)))) [0..<length ts]"
    using arrivals_in_flight [OF assms(1), of ts 0] assms(2) by simp
next
  show "length (in_flight (conc_run (take k (seq_calls cs 0)) s)) \<le> 1"
    using seq_prefix_in_flight [OF assms(2)] by blast
next
  show "list_all (\<lambda>p. snd p = refreshToken (client (strava (conc_run (take k (seq_calls cs 0)) s))))
      (in_flight (conc_run (take k (seq_calls cs 0)) s))"
    using seq_prefix_in_flight [OF assms(2)] by blast
next
  assume a: "needs_refresh t0 (client (strava s))
    \<and> list_all (\<lambda>c. 300 \<le> expires_at td - fst c div 1000) rest"
  let ?s1 = "conc_step (Settle 0 (TokenOk td) True) (conc_step (Call 0 t0) s)"
  have s1: "?s1 = s\<lparr>strava := (refresh_send (strava s))
                        \<lparr>token_file := Some td,
                         client := initializeClient ((client (strava s))
                            \<lparr>accessToken := access_token td, refreshToken := refresh_token td,
                             expiresAt := Some (expires_at td)\<rparr>)\<rparr>,
                     in_flight := [],
                     finished := finished s @ [(0, Inr (''Bearer '' @ access_token td))]\<rparr>"
    using a assms by (simp add: refresh_receive_def client_refresh_send initializeClient_def)
  have fl: "in_flight ?s1 = []"
    by (subst s1) simp
  have ex: "expiresAt (client (strava ?s1)) = Some (expires_at td)"
    by (subst s1) (simp add: initializeClient_def)
  have au: "client_auth (client (strava ?s1)) = ''Bearer '' @ access_token td"
    by (subst s1) (simp add: initializeClient_def)
  have fi: "finished ?s1 = finished s @ [(0, Inr (''Bearer '' @ access_token td))]"
    by (subst s1) simp
  have rr: "refresh_requests (strava ?s1) = refresh_requests (strava s) @ [refreshToken (client (strava s))]"
    by (subst s1) (simp add: refresh_send_def)
  have "list_all (\<lambda>c. \<not> needs_refresh (fst c) (client (strava ?s1))) rest"
    unfolding needs_refresh_def TOKEN_REFRESH_BUFFER_def Let_def ex
    using a by (simp add: list_all_iff not_less)
  then have run: "conc_run (seq_calls rest (Suc 0)) ?s1
      = ?s1\<lparr>finished := finished ?s1
            @ map (\<lambda>j. (j, Inr (client_auth (client (strava ?s1))))) [Suc 0..<Suc 0 + length rest]\<rparr>"
    by (rule seq_no_refresh [OF fl])
  have all: "conc_run (seq_calls ((t0, TokenOk td, True) # rest) 0) s = conc_run (seq_calls rest (Suc 0)) ?s1"
    by simp
  have up: "[0..<Suc (length rest)] = 0 # [Suc 0..<Suc 0 + length rest]"
    by (subst upt_rec) simp
  show "finished (conc_run (seq_calls ((t0, TokenOk td, True) # rest) 0) s)
      = finished s @ map (\<lambda>j. (j, Inr (''Bearer '' @ access_token td))) [0..<Suc (length rest)]"
    unfolding all run up au fi by simp
  show "refresh_requests (strava (conc_run (seq_calls ((t0, TokenOk td, True) # rest) 0) s))
      = refresh_requests (strava s) @ [refreshToken (client (strava s))]"
    unfolding all run using rr by simp
qed

theorem refresh_not_shared_witness:
  "\<not> manualToken (client (strava conc0)) \<and> in_flight conc0 = []
   \<and> list_all (\<lambda>t. needs_refresh t (client (strava conc0))) [1001000, 1001500, 1002000]
   \<and> in_flight (conc_run (arrivals [1001000, 1001500, 1002000] 0) conc0)
       = map (\<lambda>j. (j, refreshToken (client (strava conc0)))) [0..<length [1001000, 1001500, 1002000 :: int]]
   \<and> in_flight (conc_run (arrivals [1001000, 1001500, 1002000] 0) conc0)
       = [(0, ''r0''), (1, ''r0''), (2, ''r0'')]
   \<and> needs_refresh 1001000 (client (strava conc0))
   \<and> list_all (\<lambda>c. 300 \<le> expires_at tokens1 - fst c div 1000) [(1002000, TokenFailed [], True)]
   \<and> finished (conc_run (seq_calls [(1001000, TokenOk tokens1, True), (1002000, TokenFailed [], True)] 0) conc0)
       = finished conc0 @ map (\<lambda>j. (j, Inr (''Bearer '' @ access_token tokens1)))
           [0..<Suc (length [(1002000 :: int, TokenFailed [], True)])]
   \<and> finished (conc_run (seq_calls [(1001000, TokenOk tokens1, True), (1002000, TokenFailed [], True)] 0) conc0)
       = [(0, Inr ''Bearer a1''), (1, Inr ''Bearer a1'')]"
proof -
  have h1: "\<not> manualToken (client (strava conc0))"
    by (simp add: conc0_def strava0_def)
  have h2: "in_flight conc0 = []"
    by (simp add: conc0_def)
  have h3: "list_all (\<lambda>t. needs_refresh t (client (strava conc0))) [1001000, 1001500, 1002000]"
    by (simp add: strava_eval)
  have h4: "needs_refresh 1001000 (client (strava conc0))"
    by (simp add: strava_eval)
  have h5: "list_all (\<lambda>c. 300 \<le> expires_at tokens1 - fst c div 1000) [(1002000, TokenFailed [], True)]"
    by (simp add: tokens1_def)
  have e1: "in_flight (conc_run (arrivals [1001000, 1001500, 1002000] 0) conc0)
       = [(0, ''r0''), (1, ''r0''), (2, ''r0'')]"
    by (simp add: strava_eval)
  have e2: "finished (conc_run (seq_calls [(1001000, TokenOk tokens1, True), (1002000, TokenFailed [], True)] 0) conc0)
       = [(0, Inr ''Bearer a1''), (1, Inr ''Bearer a1'')]"
    by (simp add: strava_eval)
  note T = refresh_not_shared [OF h1 h2, of "[1001000, 1001500, 1002000]" 0 "[]" 1001000 tokens1
        "[(1002000, TokenFailed [], True)]"]
  show ?thesis
    using h1 h2 h3 h4 h5 e1 e2 T by blast
qed

section \<open>Shared cache: properties\<close>

lemma cache_get_set:
  "cache_get now (cache_set T0 c k v t) k' =
     (if k' = k then (if now < T0 + t * 1000 then Some v else None) else cache_get now c k')"
  by (simp add: cache_get_def cache_set_def update_conv')

lemma cache_get_del:
  "cache_get now (snd (cache_del c k)) k' = (if k' = k then None else cache_get now c k')"
  by (simp add: cache_get_def cache_del_def delete_conv')

text \<open>
  C3, as claimed, fails in its second half: a stored value that is falsy (here \<open>null\<close>)
  is returned by the read before its TTL has run out, and \<open>getCachedOrFetch\<close> calls the
  fetch function all the same.
\<close>

theorem cached_falsy_refetched_counterexample:
  "cache_get 1000 (cache_set 0 [] ''strava:athlete'' JNull 3600) ''strava:athlete'' = Some JNull
   \<and> cof_fetches (getCachedOrFetch 1000 1200 (cache_set 0 [] ''strava:athlete'' JNull 3600)
        ''strava:athlete'' 3600 (Inr JNull)) = 1"
  by (simp add: cache_get_set getCachedOrFetch_def js_cache_get_def)

text \<open>
  C3 (as amended). A value stored under a key with TTL \<open>t\<close> seconds at time \<open>T0\<close> is
  returned by every read strictly before \<open>T0 + t\<close> and by no read at or after it.
  \<open>getCachedOrFetch\<close> calls its fetch function exactly when the read does not return a
  truthy value, that is when the read misses or the stored value is falsy; for a truthy
  stored value (every object and array) that is exactly when the read misses. When the
  fetch function was called and resolved, the fetched value is stored under the same key
  with the given TTL, counted from the time of the write.
\<close>

theorem cache_ttl_and_fetch:
  "cache_get now (cache_set T0 c k v t) k = (if now < T0 + t * 1000 then Some v else None)
   \<and> cof_fetches (getCachedOrFetch now now' c k d f) = (if served now c k then 0 else 1)
   \<and> served now (cache_set T0 c k v t) k = (truthy v \<and> now < T0 + t * 1000)
   \<and> cof_cache (getCachedOrFetch now now' c k d (Inr x))
       = (if served now c k then c else cache_set now' c k x d)
   \<and> cof_result (getCachedOrFetch now now' c k d (Inr x))
       = (if served now c k then Inr \<lparr>cr_data = js_cache_get now c k, cr_fromCache = True\<rparr>
          else Inr \<lparr>cr_data = x, cr_fromCache = False\<rparr>)"
  by (cases f)
     (auto simp add: cache_get_set getCachedOrFetch_def js_cache_get_def served_def Let_def
       split: option.splits)

section \<open>Aggregation: properties\<close>


















section \<open>Calendar service: properties\<close>

text \<open>
  What a successful \<open>POST /events\<close> or \<open>PUT /events/:eventId\<close> does to the cache:
  it removes the entry of the local date of the event's new start time and leaves every
  other entry as it was.
\<close>

lemma clearDateCache_get:
  "cache_get now (snd (clearDateCache c d)) k = (if k = getCacheKey d then None else cache_get now c k)"
  by (simp add: clearDateCache_def cache_get_del)

lemma post_events_cache:
  assumes "validateEventData mkDate eventData = Inr v" and "ev_valid v"
  shows "snd (post_events mkDate c eventData (Inr data))
       = snd (clearDateCache c (getDateKey mkDate (js_prop eventData ''start'')))"
  using assms by (simp add: post_events_def Let_def)

lemma put_event_cache:
  assumes "validateEventData mkDate eventData = Inr v" and "ev_valid v"
  shows "snd (put_event mkDate c eventId eventData (Inr data))
       = snd (clearDateCache c (getDateKey mkDate (js_prop eventData ''start'')))"
  using assms by (simp add: put_event_def Let_def)

lemma calendar_write_clears_start_date:
  assumes "validateEventData mkDate eventData = Inr v" and "ev_valid v"
  shows "cache_get now (snd (post_events mkDate c eventData (Inr data))) k
          = (if k = CACHE_PREFIX @ getDateKey mkDate (js_prop eventData ''start'') then None else cache_get now c k)
       \<and> cache_get now (snd (put_event mkDate c eventId eventData (Inr data))) k
          = (if k = CACHE_PREFIX @ getDateKey mkDate (js_prop eventData ''start'') then None else cache_get now c k)"
  using assms
  by (simp add: post_events_cache put_event_cache clearDateCache_get getCacheKey_def)

lemma moved_valid: "validateEventData date_table moved_event = Inr \<lparr>ev_valid = True, ev_errors = []\<rparr>"
  by (simp add: validateEventData_def moved_event_def date_table_def trim_is_empty_def is_space_def Let_def)

lemma moved_key: "getDateKey date_table (js_prop moved_event ''start'') = ''2025-01-07''"
  by (simp add: getDateKey_def moved_event_def date_table_def formatDate_def string_of_int_def
      string_of_nat.simps digit_char_def padStart2_def)

lemma moved_cache:
  "snd (put_event date_table cal_cache ''e1'' moved_event (Inr event_e1))
     = snd (clearDateCache cal_cache ''2025-01-07'')"
  using put_event_cache [OF moved_valid, of cal_cache "''e1''" event_e1] moved_key by simp

text \<open>
  C8 at a failing input. The cache holds the event lists of 6 and 7 January and the today
  aggregate; the event \<open>e1\<close> is in the list of 6 January. \<open>PUT /events/e1\<close> moves it
  to 7 January and succeeds. The route removes the entry of 7 January only: the entry of
  6 January, whose list the write changed, is still there, and the next read of that day
  is answered from it without a fetch; the today aggregate, which lists \<open>e1\<close> as well,
  stays too. \<open>DELETE /events/e1\<close> on the same cache removes every calendar entry.
\<close>

theorem update_leaves_old_date_cached:
  "res_status (fst (put_event date_table cal_cache ''e1'' moved_event (Inr event_e1))) = 200
   \<and> cache_get 60000 (snd (put_event date_table cal_cache ''e1'' moved_event (Inr event_e1)))
        ''calendar:events:2025-01-07'' = None
   \<and> cache_get 60000 (snd (put_event date_table cal_cache ''e1'' moved_event (Inr event_e1)))
        ''calendar:events:2025-01-06'' = Some (JArr [event_e1])
   \<and> getEventsWithCache None 60000 60100
        (snd (put_event date_table cal_cache ''e1'' moved_event (Inr event_e1))) ''2025-01-06'' (Inr (JArr []))
       = (Inr (JArr [event_e1]), snd (put_event date_table cal_cache ''e1'' moved_event (Inr event_e1)), 0)
   \<and> cache_get 60000 (snd (put_event date_table cal_cache ''e1'' moved_event (Inr event_e1)))
        ''unified:today'' = Some (JObj [(''date'', JStr ''2025-01-06''), (''events'', JArr [event_e1])])
   \<and> cache_keys (snd (delete_event cal_cache ''e1'' (Inr JNull))) = [''unified:today'']"
proof -
  have st: "res_status (fst (put_event date_table cal_cache ''e1'' moved_event (Inr event_e1))) = 200"
    by (simp add: put_event_def moved_valid Let_def)
  have g7: "cache_get 60000 (snd (clearDateCache cal_cache ''2025-01-07'')) ''calendar:events:2025-01-07'' = None"
    by (simp add: clearDateCache_get getCacheKey_def CACHE_PREFIX_def)
  have g6: "cache_get 60000 (snd (clearDateCache cal_cache ''2025-01-07'')) ''calendar:events:2025-01-06''
      = Some (JArr [event_e1])"
    by (simp add: clearDateCache_get getCacheKey_def CACHE_PREFIX_def cal_cache_def cache_get_set)
  have gt: "cache_get 60000 (snd (clearDateCache cal_cache ''2025-01-07'')) ''unified:today''
      = Some (JObj [(''date'', JStr ''2025-01-06''), (''events'', JArr [event_e1])])"
    by (simp add: clearDateCache_get getCacheKey_def CACHE_PREFIX_def cal_cache_def cache_get_set)
  have rd: "getEventsWithCache None 60000 60100 (snd (clearDateCache cal_cache ''2025-01-07''))
        ''2025-01-06'' (Inr (JArr []))
      = (Inr (JArr [event_e1]), snd (clearDateCache cal_cache ''2025-01-07''), 0)"
    using g6 by (simp add: getEventsWithCache_def getCachedEvents_def js_cache_get_def getCacheKey_def
        CACHE_PREFIX_def Let_def)
  have dl: "cache_keys (snd (delete_event cal_cache ''e1'' (Inr JNull))) = [''unified:today'']"
    by (simp add: delete_event_def clearAllCalendarCache_def cache_keys_def cal_cache_def cache_set_def
        startsWith_def CACHE_PREFIX_def cache_del_def Let_def)
  show ?thesis
    unfolding moved_cache using st g7 g6 gt rd dl by simp
qed

end
